theory Spec2Isabelle
  imports Complex_Main "HOL-Library.Signed_Division"
begin

section \<open>The DTMF tone generator (DtmfGen.cpp)\<close>

text \<open>
  The generator is embedded function by function. Conventions of the embedding:
  \<^item> \<open>sampleCount\<close> (a 64-bit signed count) and \<open>int\<close> are the mathematical integers; signed
    overflow, which C++ leaves undefined, is outside the model. Integer division is the
    truncating \<open>sdiv\<close>, and a zero divisor is a fault.
  \<^item> \<open>double\<close> and \<open>float\<close> values are real numbers. Where only a value is stored or a
    sample is computed (\<open>Recalculate\<close>, \<open>MakeDtmfTone\<close>) the arithmetic is exact: rounding is
    not modelled. Where a double is turned into an integer (the four floors of
    \<open>ProcessInitialize\<close>) rounding decides the result, and the integers are inputs of the
    embedding instead of floors of exact reals.
  \<^item> \<open>wxChar\<close> is \<open>char\<close>, a \<open>wxString\<close> is a \<open>string\<close>.
  \<^item> \<open>wxASSERT\<close> does nothing (as in a release build); reading the sequence string or writing a
    buffer outside its bounds, and dividing by zero, are faults.
  \<^item> the two \<open>while\<close> loops that need not terminate are partial functions with an
    \<open>option\<close> result: \<open>None\<close> is a run that never returns.
\<close>

datatype fault = DivideByZero | SequenceIndexOutOfRange | BufferIndexOutOfRange

type_synonym sampleCount = int

subsection \<open>State\<close>

text \<open>\<open>EffectDtmf::Settings\<close>: three parameters and the three fields derived from them.\<close>

record Settings =
  dtmfSequence :: string
  dtmfDutyCycle :: real
  dtmfAmplitude :: real
  dtmfNTones :: int
  dtmfTone :: real
  dtmfSilence :: real

text \<open>
  The effect object: its settings, the fields of the base class that the generator reads
  (\<open>mDuration\<close> is what \<open>GetDuration\<close> and \<open>SetDuration\<close> access), and the cursor of a run.
\<close>

record EffectDtmf =
  mSettings :: Settings
  mDuration :: real
  mT0 :: real
  mSampleRate :: real
  numSamplesSequence :: sampleCount
  numSamplesTone :: sampleCount
  numSamplesSilence :: sampleCount
  diff :: sampleCount
  numRemaining :: sampleCount
  curTonePos :: sampleCount
  isTone :: bool
  curSeqPos :: int

subsection \<open>Constants\<close>

definition kFadeInOut :: real where
  "kFadeInOut = 250"

definition kSymbols :: "string list" where
  "kSymbols =
    [[CHR ''0''], [CHR ''1''], [CHR ''2''], [CHR ''3''],
     [CHR ''4''], [CHR ''5''], [CHR ''6''], [CHR ''7''],
     [CHR ''8''], [CHR ''9''], [CHR ''*''], [CHR ''#''],
     [CHR ''A''], [CHR ''B''], [CHR ''C''], [CHR ''D''],
     [CHR ''a''], [CHR ''b''], [CHR ''c''], [CHR ''d''],
     [CHR ''e''], [CHR ''f''], [CHR ''g''], [CHR ''h''],
     [CHR ''i''], [CHR ''j''], [CHR ''k''], [CHR ''l''],
     [CHR ''m''], [CHR ''n''], [CHR ''o''], [CHR ''p''],
     [CHR ''q''], [CHR ''r''], [CHR ''s''], [CHR ''t''],
     [CHR ''u''], [CHR ''v''], [CHR ''w''], [CHR ''x''],
     [CHR ''y''], [CHR ''z'']]"


subsection \<open>MakeDtmfTone\<close>

text \<open>The first \<open>switch\<close>: the low tone of a symbol.\<close>

definition select_f1 :: "char \<Rightarrow> real" where
  "select_f1 tone =
    (if tone \<in> set ''123Aabcdef'' then 697
     else if tone \<in> set ''456Bghijklmno'' then 770
     else if tone \<in> set ''789Cpqrstuvwxyz'' then 852
     else if tone \<in> set ''*0#D'' then 941
     else 0)"

text \<open>The second \<open>switch\<close>: the high tone of a symbol.\<close>

definition select_f2 :: "char \<Rightarrow> real" where
  "select_f2 tone =
    (if tone \<in> set ''147*ghipqrs'' then 1209
     else if tone \<in> set ''2580abcjkltuv'' then 1336
     else if tone \<in> set ''369#defmnowxyz'' then 1477
     else if tone \<in> set ''ABCD'' then 1633
     else 0)"

text \<open>\<open>buffer[i] *= m\<close>, a fault outside the \<open>len\<close> samples handed to the call.\<close>

definition buffer_scale :: "real list \<Rightarrow> nat \<Rightarrow> real \<Rightarrow> fault + real list" where
  "buffer_scale buffer i m =
    (if i < length buffer then Inr (buffer[i := buffer ! i * m])
     else Inl BufferIndexOutOfRange)"

text \<open>\<open>for (size_t i = 0; i < A; i++) buffer[i] *= i / A\<close>, entered at \<open>i\<close>.\<close>

function fade_in_loop :: "real \<Rightarrow> nat \<Rightarrow> real list \<Rightarrow> fault + real list" where
  "fade_in_loop A i buffer =
    (if real i < A then
       (case buffer_scale buffer i (real i / A) of
          Inl f \<Rightarrow> Inl f
        | Inr buffer' \<Rightarrow> fade_in_loop A (i + 1) buffer')
     else Inr buffer)"
  by pat_completeness auto
termination
proof (relation "measure (\<lambda>(A, i, buffer). nat \<lceil>A\<rceil> - i)")
  fix A :: real and i :: nat and buffer x2 :: "real list"
  assume "real i < A"
  then have "i < nat \<lceil>A\<rceil>" by linarith
  then show "((A, i + 1, x2), A, i, buffer) \<in> measure (\<lambda>(A, i, buffer). nat \<lceil>A\<rceil> - i)"
    by simp
qed simp

text \<open>\<open>for (size_t i = 0; i < A; i++) buffer[i + offset] *= (1 - (i / A))\<close>, entered at \<open>i\<close>.\<close>

function fade_out_loop :: "real \<Rightarrow> nat \<Rightarrow> nat \<Rightarrow> real list \<Rightarrow> fault + real list" where
  "fade_out_loop A offset i buffer =
    (if real i < A then
       (case buffer_scale buffer (i + offset) (1 - real i / A) of
          Inl f \<Rightarrow> Inl f
        | Inr buffer' \<Rightarrow> fade_out_loop A offset (i + 1) buffer')
     else Inr buffer)"
  by pat_completeness auto
termination
proof (relation "measure (\<lambda>(A, offset, i, buffer). nat \<lceil>A\<rceil> - i)")
  fix A :: real and offset i :: nat and buffer x2 :: "real list"
  assume "real i < A"
  then have "i < nat \<lceil>A\<rceil>" by linarith
  then show "((A, offset, i + 1, x2), A, offset, i, buffer)
      \<in> measure (\<lambda>(A, offset, i, buffer). nat \<lceil>A\<rceil> - i)"
    by simp
qed simp

text \<open>
  The sample written at index \<open>i\<close> by the generating loop, before any fade:
  \<open>A = B = 2 * M_PI / fs; A *= f1; B *= f2\<close> and then
  \<open>amplitude * 0.5 * (sin(A * (i + last)) + sin(B * (i + last)))\<close>.
\<close>

definition wave_sample :: "real \<Rightarrow> char \<Rightarrow> sampleCount \<Rightarrow> real \<Rightarrow> nat \<Rightarrow> real" where
  "wave_sample fs tone last_pos amplitude i =
    (let f1 = select_f1 tone; f2 = select_f2 tone;
         A = 2 * pi / fs * f1; B = 2 * pi / fs * f2
     in amplitude * 0.5 *
          (sin (A * real_of_int (int i + last_pos)) + sin (B * real_of_int (int i + last_pos))))"

text \<open>
  \<open>MakeDtmfTone(buffer, len, fs, tone, last, total, amplitude)\<close>. The result is the \<open>len\<close>
  samples the call leaves in \<open>buffer\<close>; the C++ function returns \<open>true\<close> in every case.
  The parameters \<open>last\<close> and \<open>total\<close> of the source are \<open>last_pos\<close> and \<open>total_len\<close> here.
  \<open>size_t offset = len - A\<close> converts a non-negative double to an integer by truncation.
\<close>

definition MakeDtmfTone ::
    "nat \<Rightarrow> real \<Rightarrow> char \<Rightarrow> sampleCount \<Rightarrow> sampleCount \<Rightarrow> real \<Rightarrow> fault + real list" where
  "MakeDtmfTone len fs tone last_pos total_len amplitude =
    (let buffer = map (wave_sample fs tone last_pos amplitude) [0..<len] in
     case (if last_pos = 0 then fade_in_loop (min (real len) (fs / kFadeInOut)) 0 buffer
           else Inr buffer) of
       Inl f \<Rightarrow> Inl f
     | Inr buffer1 \<Rightarrow>
         if last_pos \<ge> total_len - int len then
           (let A = min (real len) (fs / kFadeInOut);
                offset = nat \<lfloor>real len - A\<rfloor>
            in fade_out_loop A offset 0 buffer1)
         else Inr buffer1)"

subsection \<open>Recalculate\<close>

text \<open>
  \<open>EffectDtmf::Settings::Recalculate(effect)\<close> updates \<open>dtmfNTones\<close>, \<open>dtmfTone\<close>,
  \<open>dtmfSilence\<close> and, for an empty sequence, the duration of the effect.
\<close>

definition Recalculate :: "EffectDtmf \<Rightarrow> EffectDtmf" where
  "Recalculate e =
    (let s = mSettings e; n = int (length (dtmfSequence s)) in
     if n = 0 then
       e\<lparr>mDuration := 0, mSettings := s\<lparr>dtmfNTones := n, dtmfTone := 0, dtmfSilence := 0\<rparr>\<rparr>
     else if n = 1 then
       e\<lparr>mSettings := s\<lparr>dtmfNTones := n, dtmfTone := mDuration e, dtmfSilence := 0\<rparr>\<rparr>
     else
       (let slot = mDuration e / (real_of_int n + (dtmfDutyCycle s / 100) - 1) in
        e\<lparr>mSettings := s\<lparr>dtmfNTones := n,
               dtmfTone := slot * (dtmfDutyCycle s / 100),
               dtmfSilence := slot * (1 - (dtmfDutyCycle s / 100))\<rparr>\<rparr>))"

subsection \<open>ProcessInitialize\<close>

text \<open>
  The redistribution loop of \<open>ProcessInitialize\<close>, on \<open>dtmfNTones\<close>, \<open>numSamplesSequence\<close>,
  \<open>numSamplesTone\<close>, \<open>numSamplesSilence\<close> and \<open>diff\<close>; it returns the last three.
\<close>

partial_function (option) redistribute_loop ::
    "int \<Rightarrow> sampleCount \<Rightarrow> sampleCount \<Rightarrow> sampleCount \<Rightarrow> sampleCount
      \<Rightarrow> (fault + sampleCount \<times> sampleCount \<times> sampleCount) option" where
  "redistribute_loop N T t s d =
    (if d > 2 * N - 1 then
       (if N = 0 \<or> N - 1 = 0 then Some (Inl DivideByZero)
        else redistribute_loop N T (t + d sdiv N) (s + d sdiv (N - 1))
               (T - N * (t + d sdiv N) - (N - 1) * (s + d sdiv (N - 1))))
     else Some (Inr (t, s, d)))"

text \<open>
  The four integers that \<open>ProcessInitialize\<close> obtains from double arithmetic:
  \<open>nT0 = (sampleCount)floor(mT0 * mSampleRate + 0.5)\<close>,
  \<open>nT1 = (sampleCount)floor((mT0 + duration) * mSampleRate + 0.5)\<close>,
  \<open>floorTone = floor(dtmfTone * mSampleRate)\<close> and
  \<open>floorSilence = floor(dtmfSilence * mSampleRate)\<close>. The products and sums are rounded to
  doubles before the floor is taken, and where the exact value lies at an integer the rounding
  decides on which side the floor falls: 1 s of one tone from 0.005 s at 44100 Hz has
  \<open>nT1 - nT0 = 44099\<close> and \<open>floorTone = 44100\<close>. The embedding therefore takes the four
  integers as they are computed, as an argument of \<open>ProcessInitialize\<close>.
\<close>

record Floors =
  nT0 :: sampleCount
  nT1 :: sampleCount
  floorTone :: sampleCount
  floorSilence :: sampleCount

text \<open>
  \<open>ProcessInitialize\<close>: \<open>Inr (False, e)\<close> is the return of \<open>false\<close> after the message box,
  with the effect untouched; \<open>Inr (True, e')\<close> is the return of \<open>true\<close>.
\<close>

definition ProcessInitialize :: "EffectDtmf \<Rightarrow> Floors \<Rightarrow> (fault + bool \<times> EffectDtmf) option" where
  "ProcessInitialize e fl =
    (let dtmfSettings = mSettings e in
     if dtmfNTones dtmfSettings \<le> 0 then Some (Inr (False, e))
     else
       (let T = nT1 fl - nT0 fl;
            t = floorTone fl;
            s = floorSilence fl;
            d = T - (dtmfNTones dtmfSettings * t) - (dtmfNTones dtmfSettings - 1) * s
        in case redistribute_loop (dtmfNTones dtmfSettings) T t s d of
             None \<Rightarrow> None
           | Some (Inl f) \<Rightarrow> Some (Inl f)
           | Some (Inr (t', s', d')) \<Rightarrow>
               Some (Inr (True,
                 e\<lparr>numSamplesSequence := T, numSamplesTone := t', numSamplesSilence := s',
                   diff := d', curSeqPos := - 1, isTone := False, numRemaining := 0\<rparr>))))"

subsection \<open>ProcessBlock\<close>

text \<open>
  Modelled from the spec: \<open>limitSampleBufferSize\<close> is declared outside the given sources.
  A block takes no more than the samples remaining in the current segment: the smaller of the
  requested size and the remaining count, which counts as zero when negative.
\<close>

definition limitSampleBufferSize :: "nat \<Rightarrow> sampleCount \<Rightarrow> nat" where
  "limitSampleBufferSize bufferSize limit = nat (min (int bufferSize) (max 0 limit))"

text \<open>
  The body of \<open>if (numRemaining == 0)\<close>: the next segment starts. \<open>diff-- > 0\<close> tests the
  remainder before decrementing it.
\<close>

definition start_segment :: "EffectDtmf \<Rightarrow> EffectDtmf" where
  "start_segment e =
    (let e1 = e\<lparr>isTone := \<not> isTone e\<rparr>;
         e2 = (if isTone e1 then
                 e1\<lparr>curSeqPos := curSeqPos e1 + 1, numRemaining := numSamplesTone e1,
                    curTonePos := 0\<rparr>
               else e1\<lparr>numRemaining := numSamplesSilence e1\<rparr>)
     in e2\<lparr>numRemaining := numRemaining e2 + (if diff e2 > 0 then 1 else 0),
           diff := diff e2 - 1\<rparr>)"

text \<open>\<open>dtmfSequence[curSeqPos]\<close>, a fault outside the string.\<close>

definition sequence_at :: "string \<Rightarrow> int \<Rightarrow> fault + char" where
  "sequence_at str i =
    (if 0 \<le> i \<and> i < int (length str) then Inr (str ! nat i)
     else Inl SequenceIndexOutOfRange)"

text \<open>
  The \<open>while (size)\<close> loop of \<open>ProcessBlock\<close>. \<open>out\<close> is what has been written to the output
  buffer so far and \<open>processed\<close> the counter the function returns; the parameter \<open>size\<close> of the
  source is \<open>sz\<close> here.
\<close>

partial_function (option) ProcessBlock_loop ::
    "EffectDtmf \<Rightarrow> nat \<Rightarrow> real list \<Rightarrow> nat \<Rightarrow> (fault + nat \<times> real list \<times> EffectDtmf) option" where
  "ProcessBlock_loop e sz out processed =
    (if sz \<noteq> 0 then
       (let e1 = (if numRemaining e = 0 then start_segment e else e);
            len = limitSampleBufferSize sz (numRemaining e1)
        in if isTone e1 then
             (case sequence_at (dtmfSequence (mSettings e1)) (curSeqPos e1) of
                Inl f \<Rightarrow> Some (Inl f)
              | Inr tone \<Rightarrow>
                  (case MakeDtmfTone len (mSampleRate e1) tone (curTonePos e1)
                          (numSamplesTone e1) (dtmfAmplitude (mSettings e1)) of
                     Inl f \<Rightarrow> Some (Inl f)
                   | Inr samples \<Rightarrow>
                       ProcessBlock_loop
                         (e1\<lparr>curTonePos := curTonePos e1 + int len,
                             numRemaining := numRemaining e1 - int len\<rparr>)
                         (sz - len) (out @ samples) (processed + len)))
           else
             ProcessBlock_loop (e1\<lparr>numRemaining := numRemaining e1 - int len\<rparr>)
               (sz - len) (out @ replicate len 0) (processed + len))
     else Some (Inr (processed, out, e)))"

definition ProcessBlock :: "EffectDtmf \<Rightarrow> nat \<Rightarrow> (fault + nat \<times> real list \<times> EffectDtmf) option" where
  "ProcessBlock e sz = ProcessBlock_loop e sz [] 0"

text \<open>
  The lengths of the next \<open>k\<close> segments the loop starts, each with its kind (\<open>True\<close> for a
  tone): what \<open>numRemaining\<close> is when \<open>start_segment\<close> has run, under a host that consumes each
  segment to its end.
\<close>

fun segments :: "nat \<Rightarrow> EffectDtmf \<Rightarrow> (bool \<times> sampleCount) list" where
  "segments 0 e = []"
| "segments (Suc k) e =
    (let e' = start_segment e
     in (isTone e', numRemaining e') # segments k (e'\<lparr>numRemaining := 0\<rparr>))"

subsection \<open>SetAutomationParameters\<close>









text \<open>
  The remainder \<open>diff\<close> that \<open>ProcessInitialize\<close> computes before its loop, from the selection
  length \<open>nT1 - nT0\<close> and the two floored slot lengths.
\<close>

definition initial_remainder :: "EffectDtmf \<Rightarrow> Floors \<Rightarrow> int" where
  "initial_remainder e fl =
     (nT1 fl - nT0 fl)
       - dtmfNTones (mSettings e) * floorTone fl
       - (dtmfNTones (mSettings e) - 1) * floorSilence fl"

text \<open>
  What rounding leaves of the relation between the four integers and the exact values: the
  selection length \<open>nT1 - nT0\<close> is within 5/4 of \<open>duration * rate\<close>, each floor lies between the exact
  product less 5/4 and the exact product plus 1/4, and the floor of a length that is exactly 0
  is 0. The floors of the exact values satisfy this, and so do the integers that doubles give
  wherever the rounding error of a product stays below a quarter of a sample.
\<close>

definition floors_close :: "EffectDtmf \<Rightarrow> Floors \<Rightarrow> bool" where
  "floors_close e fl \<longleftrightarrow>
     mDuration e * mSampleRate e - 5 / 4 \<le> real_of_int (nT1 fl - nT0 fl)
     \<and> real_of_int (nT1 fl - nT0 fl) \<le> mDuration e * mSampleRate e + 5 / 4
     \<and> dtmfTone (mSettings e) * mSampleRate e - 5 / 4 \<le> real_of_int (floorTone fl)
     \<and> real_of_int (floorTone fl) \<le> dtmfTone (mSettings e) * mSampleRate e + 1 / 4
     \<and> dtmfSilence (mSettings e) * mSampleRate e - 5 / 4 \<le> real_of_int (floorSilence fl)
     \<and> real_of_int (floorSilence fl) \<le> dtmfSilence (mSettings e) * mSampleRate e + 1 / 4
     \<and> (dtmfTone (mSettings e) = 0 \<longrightarrow> floorTone fl = 0)
     \<and> (dtmfSilence (mSettings e) = 0 \<longrightarrow> floorSilence fl = 0)"

subsection \<open>A configured effect\<close>

text \<open>
  An effect whose parameters, duration, start time and sample rate have been set and whose
  derived fields have then been brought up to date by \<open>Recalculate\<close>, as every setter of the
  dialog and \<open>SetAutomationParameters\<close> do.
\<close>

definition configured :: "string \<Rightarrow> real \<Rightarrow> real \<Rightarrow> real \<Rightarrow> real \<Rightarrow> real \<Rightarrow> EffectDtmf" where
  "configured sq dc amp dur t0 fs =
    Recalculate
      \<lparr>mSettings = \<lparr>dtmfSequence = sq, dtmfDutyCycle = dc, dtmfAmplitude = amp,
                    dtmfNTones = 0, dtmfTone = 0, dtmfSilence = 0\<rparr>,
       mDuration = dur, mT0 = t0, mSampleRate = fs,
       numSamplesSequence = 0, numSamplesTone = 0, numSamplesSilence = 0, diff = 0,
       numRemaining = 0, curTonePos = 0, isTone = False, curSeqPos = 0\<rparr>"

text \<open>
  The segments of a whole run: those that the loop of \<open>ProcessBlock\<close> starts after a
  successful \<open>ProcessInitialize\<close>, \<open>N\<close> tones with \<open>N - 1\<close> silences between them.
\<close>

definition planned_segments :: "EffectDtmf \<Rightarrow> Floors \<Rightarrow> (bool \<times> sampleCount) list option" where
  "planned_segments e fl =
    (case ProcessInitialize e fl of
       Some (Inr (True, e')) \<Rightarrow> Some (segments (nat (2 * dtmfNTones (mSettings e) - 1)) e')
     | _ \<Rightarrow> None)"

subsection \<open>The multipliers of the two fades\<close>

text \<open>
  What the fade-in loop and the fade-out loop of \<open>MakeDtmfTone\<close> multiply the sample at index
  \<open>j\<close> by, in closed form: 1 where the loop is not entered or does not reach \<open>j\<close>.
\<close>

definition fade_in_factor :: "nat \<Rightarrow> real \<Rightarrow> sampleCount \<Rightarrow> nat \<Rightarrow> real" where
  "fade_in_factor len fs last_pos j =
    (let A = min (real len) (fs / kFadeInOut)
     in if last_pos = 0 \<and> real j < A then real j / A else 1)"

definition fade_out_factor :: "nat \<Rightarrow> real \<Rightarrow> sampleCount \<Rightarrow> sampleCount \<Rightarrow> nat \<Rightarrow> real" where
  "fade_out_factor len fs last_pos total_len j =
    (let A = min (real len) (fs / kFadeInOut);
         offset = nat \<lfloor>real len - A\<rfloor>
     in if last_pos \<ge> total_len - int len \<and> offset \<le> j \<and> real (j - offset) < A
        then 1 - real (j - offset) / A else 1)"

subsection \<open>A run of the generator\<close>

text \<open>
  Modelled from the spec: the host that drives the effect is not among the given sources. Of
  the streaming contract the spec says that the effect is initialised once, that a failed
  \<open>Initialize\<close> signals the host to abort the run, and that \<open>ProduceBlock\<close> is then called
  repeatedly with a requested length. \<open>ProcessBlocks\<close> is such a sequence of calls, one
  requested size after the other, ended by a fault; \<open>generate\<close> is the whole run:
  \<open>ProcessInitialize\<close>, and the blocks when it returned \<open>true\<close>.
\<close>

fun ProcessBlocks :: "EffectDtmf \<Rightarrow> nat list \<Rightarrow> (fault + nat list \<times> real list \<times> EffectDtmf) option" where
  "ProcessBlocks e [] = Some (Inr ([], [], e))"
| "ProcessBlocks e (sz # szs) =
    (case ProcessBlock e sz of
       None \<Rightarrow> None
     | Some (Inl f) \<Rightarrow> Some (Inl f)
     | Some (Inr (processed, out, e1)) \<Rightarrow>
         (case ProcessBlocks e1 szs of
            None \<Rightarrow> None
          | Some (Inl f) \<Rightarrow> Some (Inl f)
          | Some (Inr (ps, outs, e2)) \<Rightarrow> Some (Inr (processed # ps, out @ outs, e2))))"

definition generate ::
    "EffectDtmf \<Rightarrow> Floors \<Rightarrow> nat list \<Rightarrow> (fault + nat list \<times> real list \<times> EffectDtmf) option" where
  "generate e fl sizes =
    (case ProcessInitialize e fl of
       None \<Rightarrow> None
     | Some (Inl f) \<Rightarrow> Some (Inl f)
     | Some (Inr (ok, e0)) \<Rightarrow> if ok then ProcessBlocks e0 sizes else Some (Inr ([], [], e0)))"

text \<open>
  The position of a run: how many segments have been started, how many of the \<open>2N - 1\<close> are
  still to start, and how many samples the current segment and those to start still hold. The
  invariant of a run that stays within the sequence.
\<close>

definition segment_index :: "EffectDtmf \<Rightarrow> int" where
  "segment_index e = 2 * (curSeqPos e + 1) - (if isTone e then 1 else 0)"

definition segments_left :: "EffectDtmf \<Rightarrow> nat" where
  "segments_left e = nat (2 * dtmfNTones (mSettings e) - 1 - segment_index e)"

definition samples_left :: "EffectDtmf \<Rightarrow> int" where
  "samples_left e = numRemaining e + sum_list (map snd (segments (segments_left e) e))"

definition run_invariant :: "EffectDtmf \<Rightarrow> bool" where
  "run_invariant e \<longleftrightarrow>
     dtmfNTones (mSettings e) = int (length (dtmfSequence (mSettings e)))
     \<and> 0 \<le> numSamplesTone e \<and> 0 \<le> numSamplesSilence e \<and> 0 \<le> numRemaining e
     \<and> 0 \<le> segment_index e \<and> segment_index e \<le> 2 * dtmfNTones (mSettings e) - 1"

section \<open>Properties\<close>

subsection \<open>The redistribution loop\<close>

lemma sdiv_pos: "0 \<le> a \<Longrightarrow> 0 < b \<Longrightarrow> a sdiv b = a div (b::int)"
  by (cases "a = 0") (simp_all add: signed_divide_int_def sgn_if)

lemma redistribute_loop_exit:
  "d \<le> 2 * N - 1 \<Longrightarrow> redistribute_loop N T t s d = Some (Inr (t, s, d))"
  by (subst redistribute_loop.simps) simp

lemma redistribute_step_negative:
  assumes N: "2 \<le> (N::int)" and d: "2 * N - 1 < (d::int)"
  shows "d - N * (d sdiv N) - (N - 1) * (d sdiv (N - 1)) < 0"
proof -
  have d0: "0 \<le> d" using N d by linarith
  have e1: "d sdiv N = d div N" using d0 N by (intro sdiv_pos) auto
  have e2: "d sdiv (N - 1) = d div (N - 1)" using d0 N by (intro sdiv_pos) auto
  have m1: "d - N * (d div N) = d mod N" by (simp add: minus_mult_div_eq_mod)
  have m1b: "d mod N < N" using N by (intro pos_mod_bound) linarith
  have m2: "d - (N - 1) * (d div (N - 1)) = d mod (N - 1)" by (simp add: minus_mult_div_eq_mod)
  have m2b: "d mod (N - 1) < N - 1" using N by (intro pos_mod_bound) linarith
  show ?thesis unfolding e1 e2 using m1 m1b m2 m2b d by linarith
qed

lemma redistribute_loop_two:
  assumes N: "2 \<le> N"
  shows "\<exists>t' s' d'. redistribute_loop N T t s (T - N * t - (N - 1) * s) = Some (Inr (t', s', d'))
     \<and> d' \<le> 2 * N - 1 \<and> d' = T - N * t' - (N - 1) * s'"
proof (cases "T - N * t - (N - 1) * s \<le> 2 * N - 1")
  case True
  then show ?thesis by (simp add: redistribute_loop_exit)
next
  case False
  define d where "d = T - N * t - (N - 1) * s"
  define t' where "t' = t + d sdiv N"
  define s' where "s' = s + d sdiv (N - 1)"
  define d' where "d' = T - N * t' - (N - 1) * s'"
  have "d' = d - N * (d sdiv N) - (N - 1) * (d sdiv (N - 1))"
    by (simp add: d'_def t'_def s'_def d_def algebra_simps)
  with redistribute_step_negative[OF N, of d] False have neg: "d' < 0" by (simp add: d_def)
  have "redistribute_loop N T t s d = redistribute_loop N T t' s' d'"
    using False N by (subst redistribute_loop.simps) (simp add: d_def t'_def s'_def d'_def)
  also have "\<dots> = Some (Inr (t', s', d'))"
    using neg N by (intro redistribute_loop_exit) linarith
  finally show ?thesis using neg N unfolding d_def[symmetric] d'_def by auto
qed

subsection \<open>Settings that are up to date\<close>

text \<open>
  \<open>Recalculate e = e\<close> says that the derived fields of \<open>e\<close> are current: recomputing them
  changes nothing.
\<close>

lemma current_NTones:
  assumes "Recalculate e = e"
  shows "dtmfNTones (mSettings e) = int (length (dtmfSequence (mSettings e)))"
proof -
  have "dtmfNTones (mSettings (Recalculate e)) = int (length (dtmfSequence (mSettings e)))"
    by (simp add: Recalculate_def Let_def)
  with assms show ?thesis by simp
qed

lemma current_one:
  assumes "Recalculate e = e" and "dtmfNTones (mSettings e) = 1"
  shows "dtmfTone (mSettings e) = mDuration e \<and> dtmfSilence (mSettings e) = 0"
proof -
  have n: "int (length (dtmfSequence (mSettings e))) = 1"
    using current_NTones[OF assms(1)] assms(2) by simp
  have "dtmfTone (mSettings (Recalculate e)) = mDuration e
      \<and> dtmfSilence (mSettings (Recalculate e)) = 0"
    using n by (auto simp: Recalculate_def Let_def)
  with assms show ?thesis by simp
qed

lemma current_many:
  assumes "Recalculate e = e" and "2 \<le> dtmfNTones (mSettings e)"
  shows "dtmfTone (mSettings e) =
           mDuration e / (real_of_int (dtmfNTones (mSettings e)) + dtmfDutyCycle (mSettings e) / 100 - 1)
             * (dtmfDutyCycle (mSettings e) / 100)
       \<and> dtmfSilence (mSettings e) =
           mDuration e / (real_of_int (dtmfNTones (mSettings e)) + dtmfDutyCycle (mSettings e) / 100 - 1)
             * (1 - dtmfDutyCycle (mSettings e) / 100)"
proof -
  have n: "dtmfNTones (mSettings e) = int (length (dtmfSequence (mSettings e)))"
    by (rule current_NTones[OF assms(1)])
  have "dtmfTone (mSettings (Recalculate e)) =
           mDuration e / (real_of_int (dtmfNTones (mSettings e)) + dtmfDutyCycle (mSettings e) / 100 - 1)
             * (dtmfDutyCycle (mSettings e) / 100)
       \<and> dtmfSilence (mSettings (Recalculate e)) =
           mDuration e / (real_of_int (dtmfNTones (mSettings e)) + dtmfDutyCycle (mSettings e) / 100 - 1)
             * (1 - dtmfDutyCycle (mSettings e) / 100)"
    using assms(2) unfolding n by (auto simp: Recalculate_def Let_def)
  with assms show ?thesis by simp
qed

text \<open>The slot lengths of current settings add up to the duration.\<close>
lemma current_sum:
  assumes cur: "Recalculate e = e" and N: "1 \<le> dtmfNTones (mSettings e)"
    and dc: "0 \<le> dtmfDutyCycle (mSettings e)"
  shows "real_of_int (dtmfNTones (mSettings e)) * dtmfTone (mSettings e)
       + (real_of_int (dtmfNTones (mSettings e)) - 1) * dtmfSilence (mSettings e) = mDuration e"
proof (cases "dtmfNTones (mSettings e) = 1")
  case True
  then show ?thesis using current_one[OF cur True] by simp
next
  case False
  then have N2: "2 \<le> dtmfNTones (mSettings e)" using N by simp
  define n where "n = real_of_int (dtmfNTones (mSettings e))"
  define c where "c = dtmfDutyCycle (mSettings e) / 100"
  have n2: "2 \<le> n" using N2 by (simp add: n_def)
  have c0: "0 \<le> c" using dc by (simp add: c_def)
  have den: "n + c - 1 \<noteq> 0" using n2 c0 by linarith
  define r where "r = mDuration e / (n + c - 1)"
  have "n * (r * c) + (n - 1) * (r * (1 - c)) = r * (n + c - 1)"
    by (simp add: algebra_simps)
  also have "\<dots> = mDuration e" using den by (simp add: r_def)
  finally show ?thesis
    using current_many[OF cur N2] by (simp add: n_def c_def r_def)
qed

text \<open>
  With one of the two lengths exactly 0 and the other floor close to its exact value, the
  remainder stays within what the segments can take, for two tones or more.
\<close>

lemma close_remainder_no_silence:
  assumes cur: "Recalculate e = e" and N: "2 \<le> dtmfNTones (mSettings e)"
    and dc: "0 \<le> dtmfDutyCycle (mSettings e)"
    and close: "floors_close e fl"
    and z: "dtmfSilence (mSettings e) = 0"
  shows "initial_remainder e fl \<le> 2 * dtmfNTones (mSettings e) - 1"
proof -
  define n where "n = real_of_int (dtmfNTones (mSettings e))"
  define a where "a = dtmfTone (mSettings e) * mSampleRate e"
  define y where "y = mDuration e * mSampleRate e"
  have n2: "2 \<le> n" using N by (simp add: n_def)
  have N1: "1 \<le> dtmfNTones (mSettings e)" using N by simp
  have "n * dtmfTone (mSettings e) = mDuration e"
    using current_sum[OF cur N1 dc] z by (simp add: n_def)
  then have "n * dtmfTone (mSettings e) * mSampleRate e = y" by (simp add: y_def)
  then have na: "n * a = y" by (simp add: a_def mult.assoc)
  from close have T: "real_of_int (nT1 fl - nT0 fl) \<le> y + 5 / 4"
    and t: "a - 5 / 4 \<le> real_of_int (floorTone fl)"
    and s: "floorSilence fl = 0"
    using z by (simp_all add: floors_close_def y_def a_def)
  have "n * (a - 5 / 4) \<le> n * real_of_int (floorTone fl)"
    using t n2 by (intro mult_left_mono) auto
  then have nt: "y - n * (5 / 4) \<le> n * real_of_int (floorTone fl)"
    using na by (simp add: algebra_simps)
  have "real_of_int (initial_remainder e fl)
      = real_of_int (nT1 fl - nT0 fl) - n * real_of_int (floorTone fl)"
    by (simp add: initial_remainder_def s n_def)
  also have "\<dots> \<le> 5 / 4 + n * (5 / 4)" using T nt by linarith
  also have "\<dots> < 2 * n" using n2 by linarith
  finally have "real_of_int (initial_remainder e fl) < real_of_int (2 * dtmfNTones (mSettings e))"
    by (simp add: n_def)
  then have "initial_remainder e fl < 2 * dtmfNTones (mSettings e)"
    by (simp only: of_int_less_iff)
  then show ?thesis by linarith
qed

lemma close_remainder_no_tone:
  assumes cur: "Recalculate e = e" and N: "2 \<le> dtmfNTones (mSettings e)"
    and dc: "0 \<le> dtmfDutyCycle (mSettings e)"
    and close: "floors_close e fl"
    and z: "dtmfTone (mSettings e) = 0"
  shows "initial_remainder e fl \<le> 2 * dtmfNTones (mSettings e) - 1"
proof -
  define n where "n = real_of_int (dtmfNTones (mSettings e))"
  define b where "b = dtmfSilence (mSettings e) * mSampleRate e"
  define y where "y = mDuration e * mSampleRate e"
  have n2: "2 \<le> n" using N by (simp add: n_def)
  have N1: "1 \<le> dtmfNTones (mSettings e)" using N by simp
  have "(n - 1) * dtmfSilence (mSettings e) = mDuration e"
    using current_sum[OF cur N1 dc] z by (simp add: n_def)
  then have "(n - 1) * dtmfSilence (mSettings e) * mSampleRate e = y" by (simp add: y_def)
  then have nb: "(n - 1) * b = y" by (simp add: b_def mult.assoc)
  from close have T: "real_of_int (nT1 fl - nT0 fl) \<le> y + 5 / 4"
    and s: "b - 5 / 4 \<le> real_of_int (floorSilence fl)"
    and t: "floorTone fl = 0"
    using z by (simp_all add: floors_close_def y_def b_def)
  have "(n - 1) * (b - 5 / 4) \<le> (n - 1) * real_of_int (floorSilence fl)"
    using s n2 by (intro mult_left_mono) auto
  then have ns: "y - (n - 1) * (5 / 4) \<le> (n - 1) * real_of_int (floorSilence fl)"
    using nb by (simp add: algebra_simps)
  have "real_of_int (initial_remainder e fl)
      = real_of_int (nT1 fl - nT0 fl) - (n - 1) * real_of_int (floorSilence fl)"
    by (simp add: initial_remainder_def t n_def)
  also have "\<dots> \<le> 5 / 4 + (n - 1) * (5 / 4)" using T ns by linarith
  also have "\<dots> = n * (5 / 4)" by (simp add: field_simps)
  also have "\<dots> < 2 * n" using n2 by linarith
  finally have "real_of_int (initial_remainder e fl) < real_of_int (2 * dtmfNTones (mSettings e))"
    by (simp add: n_def)
  then have "initial_remainder e fl < 2 * dtmfNTones (mSettings e)"
    by (simp only: of_int_less_iff)
  then show ?thesis by linarith
qed

text \<open>The floors of the exact values are close in this sense.\<close>

lemma exact_floors_close:
  "floors_close e
     \<lparr>nT0 = \<lfloor>mT0 e * mSampleRate e + 1 / 2\<rfloor>,
      nT1 = \<lfloor>(mT0 e + mDuration e) * mSampleRate e + 1 / 2\<rfloor>,
      floorTone = \<lfloor>dtmfTone (mSettings e) * mSampleRate e\<rfloor>,
      floorSilence = \<lfloor>dtmfSilence (mSettings e) * mSampleRate e\<rfloor>\<rparr>"
proof -
  have fl: "real_of_int \<lfloor>z\<rfloor> \<le> z" "z < real_of_int \<lfloor>z\<rfloor> + 1" for z :: real
    by linarith+
  define u where "u = (mT0 e + mDuration e) * mSampleRate e + 1 / 2"
  define v where "v = mT0 e * mSampleRate e + 1 / 2"
  have uv: "u - v = mDuration e * mSampleRate e" by (simp add: u_def v_def algebra_simps)
  have d: "real_of_int (\<lfloor>u\<rfloor> - \<lfloor>v\<rfloor>) = real_of_int \<lfloor>u\<rfloor> - real_of_int \<lfloor>v\<rfloor>"
    by simp
  have "(u - v) - 5 / 4 \<le> real_of_int (\<lfloor>u\<rfloor> - \<lfloor>v\<rfloor>)"
    and "real_of_int (\<lfloor>u\<rfloor> - \<lfloor>v\<rfloor>) \<le> (u - v) + 5 / 4"
    unfolding d using fl[of u] fl[of v] by linarith+
  then have T: "mDuration e * mSampleRate e - 5 / 4 \<le> real_of_int (\<lfloor>u\<rfloor> - \<lfloor>v\<rfloor>)"
    "real_of_int (\<lfloor>u\<rfloor> - \<lfloor>v\<rfloor>) \<le> mDuration e * mSampleRate e + 5 / 4"
    by (simp_all only: uv)
  have a: "x - 5 / 4 \<le> real_of_int \<lfloor>x\<rfloor>" "real_of_int \<lfloor>x\<rfloor> \<le> x + 1 / 4" for x :: real
    using fl[of x] by linarith+
  show ?thesis
    unfolding floors_close_def using T a by (simp add: u_def v_def)
qed

lemma ProcessInitialize_no_loop:
  assumes N: "1 \<le> dtmfNTones (mSettings e)"
    and d: "initial_remainder e fl \<le> 2 * dtmfNTones (mSettings e) - 1"
  shows "ProcessInitialize e fl = Some (Inr (True,
     e\<lparr>numSamplesSequence := nT1 fl - nT0 fl,
       numSamplesTone := floorTone fl,
       numSamplesSilence := floorSilence fl,
       diff := initial_remainder e fl, curSeqPos := - 1, isTone := False, numRemaining := 0\<rparr>))"
proof -
  have "\<not> dtmfNTones (mSettings e) \<le> 0" using N by simp
  then show ?thesis
    using d unfolding initial_remainder_def
    by (simp add: ProcessInitialize_def Let_def redistribute_loop_exit)
qed

lemma start_segment_fields [simp]:
  "numSamplesTone (start_segment e) = numSamplesTone e"
  "numSamplesSilence (start_segment e) = numSamplesSilence e"
  "numSamplesSequence (start_segment e) = numSamplesSequence e"
  "mSettings (start_segment e) = mSettings e"
  "mSampleRate (start_segment e) = mSampleRate e"
  "isTone (start_segment e) = (\<not> isTone e)"
  "diff (start_segment e) = diff e - 1"
  "curSeqPos (start_segment e) = (if isTone e then curSeqPos e else curSeqPos e + 1)"
  "numRemaining (start_segment e) =
     (if isTone e then numSamplesSilence e else numSamplesTone e) + (if diff e > 0 then 1 else 0)"
  "curTonePos (start_segment e) = (if isTone e then curTonePos e else 0)"
  by (simp_all add: start_segment_def Let_def)

lemma segments_sum:
  "sum_list (map snd (segments k e)) =
     (if isTone e
      then int (k div 2) * numSamplesTone e + int ((k + 1) div 2) * numSamplesSilence e
      else int ((k + 1) div 2) * numSamplesTone e + int (k div 2) * numSamplesSilence e)
     + min (max (diff e) 0) (int k)"
proof (induction k arbitrary: e)
  case 0
  then show ?case by simp
next
  case (Suc k)
  have d: "Suc (Suc k) div 2 = Suc (k div 2)" by simp
  have h: "(k + 1) div 2 = k div 2 \<or> (k + 1) div 2 = Suc (k div 2)" by linarith
  show ?case
    using h by (auto simp: Let_def Suc d algebra_simps min_def max_def)
qed

lemma segments_length: "length (segments k e) = k"
  by (induction k arbitrary: e) (simp_all add: Let_def)

lemma Recalculate_idem: "Recalculate (Recalculate e) = Recalculate e"
  by (simp add: Recalculate_def Let_def)

lemma configured_current: "Recalculate (configured sq dc amp dur t0 fs) = configured sq dc amp dur t0 fs"
  by (simp add: configured_def Recalculate_idem)

lemma configured_fields:
  "dtmfNTones (mSettings (configured sq dc amp dur t0 fs)) = int (length sq)"
  "dtmfDutyCycle (mSettings (configured sq dc amp dur t0 fs)) = dc"
  "dtmfSequence (mSettings (configured sq dc amp dur t0 fs)) = sq"
  "dtmfAmplitude (mSettings (configured sq dc amp dur t0 fs)) = amp"
  "mT0 (configured sq dc amp dur t0 fs) = t0"
  "mSampleRate (configured sq dc amp dur t0 fs) = fs"
  by (simp_all add: configured_def Recalculate_def Let_def)

lemma segments_tones:
  "length (filter fst (segments k e)) = (if isTone e then k div 2 else (k + 1) div 2)"
proof (induction k arbitrary: e)
  case 0
  then show ?case by simp
next
  case (Suc k)
  have h: "(k + 1) div 2 = k div 2 \<or> (k + 1) div 2 = Suc (k div 2)" by linarith
  show ?case using h by (auto simp: Let_def Suc)
qed

subsection \<open>What ProcessInitialize returns\<close>

lemma ProcessInitialize_many:
  assumes N: "2 \<le> dtmfNTones (mSettings e)"
  shows "\<exists>e'. ProcessInitialize e fl = Some (Inr (True, e'))"
proof -
  define N where "N = dtmfNTones (mSettings e)"
  define T where "T = nT1 fl - nT0 fl"
  define t where "t = floorTone fl"
  define s where "s = floorSilence fl"
  have N2: "2 \<le> N" using N by (simp add: N_def)
  from redistribute_loop_two[OF N2, of T t s] obtain t' s' d'
    where "redistribute_loop N T t s (T - N * t - (N - 1) * s) = Some (Inr (t', s', d'))"
    by blast
  moreover have "\<not> N \<le> 0" using N2 by simp
  ultimately show ?thesis
    by (simp add: ProcessInitialize_def Let_def N_def T_def t_def s_def)
qed

text \<open>
  What \<open>ProcessInitialize\<close> returns for an empty sequence and for two tones or more, whatever
  the four integers are.
\<close>

lemma ProcessInitialize_returns:
  "(dtmfNTones (mSettings e) \<le> 0 \<longrightarrow> ProcessInitialize e fl = Some (Inr (False, e)))
   \<and> (2 \<le> dtmfNTones (mSettings e) \<longrightarrow> (\<exists>e'. ProcessInitialize e fl = Some (Inr (True, e'))))"
  using ProcessInitialize_many by (simp add: ProcessInitialize_def)

lemma segments_member:
  "(b, n) \<in> set (segments k e) \<Longrightarrow>
     n = (if b then numSamplesTone e else numSamplesSilence e)
   \<or> n = (if b then numSamplesTone e else numSamplesSilence e) + 1"
proof (induction k arbitrary: e)
  case 0
  then show ?case by simp
next
  case (Suc k)
  from Suc.prems have "(b, n) = (isTone (start_segment e), numRemaining (start_segment e))
      \<or> (b, n) \<in> set (segments k ((start_segment e)\<lparr>numRemaining := 0\<rparr>))"
    by (simp add: Let_def)
  then show ?case
  proof
    assume "(b, n) = (isTone (start_segment e), numRemaining (start_segment e))"
    then show ?thesis by (cases "isTone e"; cases "0 < diff e") simp_all
  next
    assume "(b, n) \<in> set (segments k ((start_segment e)\<lparr>numRemaining := 0\<rparr>))"
    from Suc.IH[OF this] show ?thesis by (cases b) simp_all
  qed
qed

lemma redistribute_loop_overshoots:
  "redistribute_loop 2 100 0 0 (100 - 2 * 0 - (2 - 1) * 0) = Some (Inr (50, 100, - 100))"
  apply (subst redistribute_loop.simps)
  apply (simp add: signed_divide_int_def)
  apply (subst redistribute_loop.simps)
  apply simp
  done

lemma redistribute_loop_single_tone_fault:
  "redistribute_loop 1 100 0 0 (100 - 1 * 0 - (1 - 1) * 0) = Some (Inl DivideByZero)"
  by (subst redistribute_loop.simps) simp

lemma segments_unfold:
  "0 < k \<Longrightarrow> segments k e =
     (isTone (start_segment e), numRemaining (start_segment e))
       # segments (k - 1) ((start_segment e)\<lparr>numRemaining := 0\<rparr>)"
  by (cases k) (simp_all add: Let_def)

subsection \<open>What MakeDtmfTone writes\<close>

lemma map_upt_cong: "(\<And>j. j < n \<Longrightarrow> f j = g j) \<Longrightarrow> map f [0..<n] = map g [0..<n]"
  by simp

lemma fade_in_loop_result:
  "A \<le> real (length buffer) \<Longrightarrow>
   fade_in_loop A i buffer =
     Inr (map (\<lambda>j. if i \<le> j \<and> real j < A then buffer ! j * (real j / A) else buffer ! j)
            [0..<length buffer])"
proof (induction A i buffer rule: fade_in_loop.induct)
  case (1 A i buffer)
  show ?case
  proof (cases "real i < A")
    case False
    then have "(\<lambda>j. if i \<le> j \<and> real j < A then buffer ! j * (real j / A) else buffer ! j)
        = (\<lambda>j. buffer ! j)"
      by (intro ext) auto
    then show ?thesis
      using False by (subst fade_in_loop.simps) (simp add: map_nth)
  next
    case True
    then have il: "i < length buffer" using "1.prems" by linarith
    define b' where "b' = buffer[i := buffer ! i * (real i / A)]"
    have bs: "buffer_scale buffer i (real i / A) = Inr b'"
      using il by (simp add: buffer_scale_def b'_def)
    have len: "length b' = length buffer" by (simp add: b'_def)
    have IH: "fade_in_loop A (i + 1) b' =
       Inr (map (\<lambda>j. if i + 1 \<le> j \<and> real j < A then b' ! j * (real j / A) else b' ! j)
              [0..<length b'])"
      using "1.IH"[OF True bs] "1.prems" len by simp
    have "fade_in_loop A i buffer = fade_in_loop A (i + 1) b'"
      using True bs by (subst fade_in_loop.simps) simp
    also have "\<dots> = Inr (map (\<lambda>j. if i \<le> j \<and> real j < A then buffer ! j * (real j / A)
          else buffer ! j) [0..<length buffer])"
      unfolding IH len using True il
      by (auto simp: b'_def nth_list_update intro!: nth_equalityI)
    finally show ?thesis .
  qed
qed

lemma fade_out_loop_result:
  "real offset + A \<le> real (length buffer) \<Longrightarrow>
   fade_out_loop A offset i buffer =
     Inr (map (\<lambda>j. if offset + i \<le> j \<and> real (j - offset) < A
                    then buffer ! j * (1 - real (j - offset) / A) else buffer ! j)
            [0..<length buffer])"
proof (induction A offset i buffer rule: fade_out_loop.induct)
  case (1 A offset i buffer)
  show ?case
  proof (cases "real i < A")
    case False
    have no: "\<not> (offset + i \<le> j \<and> real (j - offset) < A)" for j
    proof
      assume a: "offset + i \<le> j \<and> real (j - offset) < A"
      then have "real i \<le> real (j - offset)" by simp
      with a False show False by linarith
    qed
    have "(\<lambda>j. if offset + i \<le> j \<and> real (j - offset) < A
                    then buffer ! j * (1 - real (j - offset) / A) else buffer ! j)
        = (\<lambda>j. buffer ! j)"
    proof (intro ext)
      fix j
      show "(if offset + i \<le> j \<and> real (j - offset) < A
               then buffer ! j * (1 - real (j - offset) / A) else buffer ! j) = buffer ! j"
        using no[of j] by (simp only: if_False)
    qed
    then show ?thesis
      using False by (subst fade_out_loop.simps) (simp add: map_nth)
  next
    case True
    then have il: "i + offset < length buffer" using "1.prems" by linarith
    define b' where "b' = buffer[i + offset := buffer ! (i + offset) * (1 - real i / A)]"
    have bs: "buffer_scale buffer (i + offset) (1 - real i / A) = Inr b'"
      using il by (simp add: buffer_scale_def b'_def)
    have len: "length b' = length buffer" by (simp add: b'_def)
    have IH: "fade_out_loop A offset (i + 1) b' =
       Inr (map (\<lambda>j. if offset + (i + 1) \<le> j \<and> real (j - offset) < A
                    then b' ! j * (1 - real (j - offset) / A) else b' ! j)
              [0..<length b'])"
      using "1.IH"[OF True bs] "1.prems" len by simp
    have "fade_out_loop A offset i buffer = fade_out_loop A offset (i + 1) b'"
      using True bs by (subst fade_out_loop.simps) simp
    also have "\<dots> = Inr (map (\<lambda>j. if offset + i \<le> j \<and> real (j - offset) < A
                    then buffer ! j * (1 - real (j - offset) / A) else buffer ! j)
            [0..<length buffer])"
      unfolding IH len
    proof (intro arg_cong[where f = Inr] map_upt_cong)
      fix j
      assume jl: "j < length buffer"
      show "(if offset + (i + 1) \<le> j \<and> real (j - offset) < A
               then b' ! j * (1 - real (j - offset) / A) else b' ! j)
          = (if offset + i \<le> j \<and> real (j - offset) < A
               then buffer ! j * (1 - real (j - offset) / A) else buffer ! j)"
      proof (cases "j = i + offset")
        case True
        with \<open>real i < A\<close> jl show ?thesis by (simp add: b'_def)
      next
        case False
        then have "b' ! j = buffer ! j" by (simp add: b'_def)
        moreover have "(offset + (i + 1) \<le> j) = (offset + i \<le> j)" using False by linarith
        ultimately show ?thesis by (simp only:)
      qed
    qed
    finally show ?thesis .
  qed
qed

lemma MakeDtmfTone_result:
  "MakeDtmfTone len fs tone last_pos total_len amplitude =
     Inr (map (\<lambda>j. wave_sample fs tone last_pos amplitude j
                    * fade_in_factor len fs last_pos j
                    * fade_out_factor len fs last_pos total_len j) [0..<len])"
proof -
  define A where "A = min (real len) (fs / kFadeInOut)"
  define offset where "offset = nat \<lfloor>real len - A\<rfloor>"
  define w where "w = wave_sample fs tone last_pos amplitude"
  define b0 where "b0 = map w [0..<len]"
  define b1 where "b1 = map (\<lambda>j. w j * fade_in_factor len fs last_pos j) [0..<len]"
  have Al: "A \<le> real len" by (simp add: A_def)
  have l0: "length b0 = len" and l1: "length b1 = len" by (simp_all add: b0_def b1_def)
  have fin: "(if last_pos = 0 then fade_in_loop A 0 b0 else Inr b0) = Inr b1"
  proof (cases "last_pos = 0")
    case True
    have "fade_in_loop A 0 b0 = Inr b1"
      unfolding fade_in_loop_result[of A b0 0, unfolded l0, OF Al] b1_def
      using True
      by (intro arg_cong[where f = Inr] map_upt_cong)
         (simp add: b0_def fade_in_factor_def A_def Let_def)
    with True show ?thesis by simp
  next
    case False
    then have "b1 = b0" by (simp add: b1_def b0_def fade_in_factor_def Let_def)
    with False show ?thesis by simp
  qed
  have "0 \<le> real len - A" using Al by simp
  then have "0 \<le> \<lfloor>real len - A\<rfloor>" by simp
  then have "real offset = real_of_int \<lfloor>real len - A\<rfloor>" by (simp add: offset_def)
  moreover have "real_of_int \<lfloor>real len - A\<rfloor> \<le> real len - A" by linarith
  ultimately have off: "real offset + A \<le> real (length b1)"
    unfolding l1 by linarith
  have fout: "(if last_pos \<ge> total_len - int len then fade_out_loop A offset 0 b1 else Inr b1)
      = Inr (map (\<lambda>j. w j * fade_in_factor len fs last_pos j
                    * fade_out_factor len fs last_pos total_len j) [0..<len])"
  proof (cases "last_pos \<ge> total_len - int len")
    case True
    have "fade_out_loop A offset 0 b1
      = Inr (map (\<lambda>j. w j * fade_in_factor len fs last_pos j
                    * fade_out_factor len fs last_pos total_len j) [0..<len])"
      unfolding fade_out_loop_result[OF off, of 0] l1
      using True
      by (intro arg_cong[where f = Inr] map_upt_cong)
         (simp add: b1_def fade_out_factor_def A_def[symmetric] offset_def[symmetric] Let_def
            del: of_nat_diff)
    with True show ?thesis by simp
  next
    case False
    then show ?thesis by (simp add: b1_def fade_out_factor_def Let_def)
  qed
  show ?thesis
    unfolding MakeDtmfTone_def Let_def w_def[symmetric] b0_def[symmetric] A_def[symmetric]
      offset_def[symmetric] fin
    using fout by simp
qed

lemma fade_in_factor_range: "0 \<le> fade_in_factor len fs last_pos j \<and> fade_in_factor len fs last_pos j \<le> 1"
proof -
  have "0 \<le> real j / A \<and> real j / A \<le> 1" if "real j < A" for A
  proof -
    have "0 < A" using that by (rule le_less_trans[rotated]) simp
    then show ?thesis using that by simp
  qed
  then show ?thesis by (simp add: fade_in_factor_def Let_def)
qed

lemma fade_out_factor_range:
  "0 \<le> fade_out_factor len fs last_pos total_len j \<and> fade_out_factor len fs last_pos total_len j \<le> 1"
proof -
  have "0 \<le> 1 - real i / A \<and> 1 - real i / A \<le> 1" if "real i < A" for A and i :: nat
  proof -
    have "0 < A" using that by (rule le_less_trans[rotated]) simp
    then show ?thesis using that by simp
  qed
  then show ?thesis by (simp add: fade_out_factor_def Let_def del: of_nat_diff)
qed

lemma fade_in_factor_window:
  "fade_in_factor len fs last_pos j \<noteq> 1 \<Longrightarrow>
     last_pos = 0 \<and> real j < min (real len) (fs / kFadeInOut)"
  by (simp add: fade_in_factor_def Let_def split: if_splits)

lemma fade_out_factor_window:
  assumes "fade_out_factor len fs last_pos total_len j \<noteq> 1"
  shows "last_pos \<ge> total_len - int len \<and> real len - min (real len) (fs / kFadeInOut) < real j"
proof -
  define A where "A = min (real len) (fs / kFadeInOut)"
  define offset where "offset = nat \<lfloor>real len - A\<rfloor>"
  from assms have c: "last_pos \<ge> total_len - int len" "offset \<le> j" "real (j - offset) < A"
    and ne: "1 - real (j - offset) / A \<noteq> 1"
    by (simp_all add: fade_out_factor_def Let_def A_def offset_def split: if_splits del: of_nat_diff)
  from ne have "j - offset \<noteq> 0" by auto
  then have "offset + 1 \<le> j" using c(2) by linarith
  moreover have "real len - A < real offset + 1" unfolding offset_def by linarith
  ultimately have "real len - A < real j" by linarith
  with c(1) show ?thesis by (simp add: A_def)
qed

lemma wave_sample_origin: "wave_sample fs tone 0 amplitude 0 = 0"
  by (simp add: wave_sample_def)

lemma wave_sample_formula:
  "wave_sample fs tone last_pos amplitude i =
     amplitude * 0.5 *
       (sin (2 * pi * select_f1 tone * real_of_int (int i + last_pos) / fs)
        + sin (2 * pi * select_f2 tone * real_of_int (int i + last_pos) / fs))"
proof -
  have "2 * pi / fs * f * x = 2 * pi * f * x / fs" for f x :: real by simp
  then show ?thesis by (simp only: wave_sample_def Let_def)
qed

lemma wave_sample_shift:
  "wave_sample fs tone (int k) amplitude l = wave_sample fs tone 0 amplitude (k + l)"
  by (simp add: wave_sample_def Let_def add.commute)

lemma unmapped_symbol:
  assumes "tone \<notin> set (concat kSymbols)"
  shows "select_f1 tone = 0" and "select_f2 tone = 0"
  using assms by (simp_all add: kSymbols_def select_f1_def select_f2_def)

lemma fade_out_factor_outside:
  assumes le: "last_pos + int len \<le> total_len"
    and out: "real_of_int last_pos + real l < real_of_int total_len - fs / kFadeInOut"
  shows "fade_out_factor len fs last_pos total_len l = 1"
proof (rule ccontr)
  assume "fade_out_factor len fs last_pos total_len l \<noteq> 1"
  from fade_out_factor_window[OF this]
  have a: "last_pos \<ge> total_len - int len"
    and w: "real len - min (real len) (fs / kFadeInOut) < real l"
    by simp_all
  from a le have "total_len = last_pos + int len" by simp
  then have "real_of_int total_len = real_of_int last_pos + real len" by simp
  with out have "real l < real len - fs / kFadeInOut" by simp
  moreover have "real len - fs / kFadeInOut \<le> real len - min (real len) (fs / kFadeInOut)"
    by simp
  ultimately show False using w by linarith
qed

lemma fade_in_factor_outside:
  assumes "last_pos = 0 \<longrightarrow> fs / kFadeInOut \<le> real l"
  shows "fade_in_factor len fs last_pos l = 1"
proof (rule ccontr)
  assume "fade_in_factor len fs last_pos l \<noteq> 1"
  from fade_in_factor_window[OF this] assms show False by simp
qed

subsection \<open>Running ProcessBlock\<close>

lemma segments_numRemaining [simp]: "segments k (e\<lparr>numRemaining := r\<rparr>) = segments k e"
proof (cases k)
  case 0
  then show ?thesis by simp
next
  case (Suc k')
  have "start_segment (e\<lparr>numRemaining := r\<rparr>) = start_segment e"
    by (simp add: start_segment_def Let_def)
  then show ?thesis using Suc by (simp add: Let_def)
qed

lemma segments_curTonePos [simp]: "segments k (e\<lparr>curTonePos := r\<rparr>) = segments k e"
proof (induction k arbitrary: e r)
  case 0
  then show ?case by simp
next
  case (Suc k)
  have s: "start_segment (e\<lparr>curTonePos := r\<rparr>)
      = (start_segment e)\<lparr>curTonePos := (if isTone e then r else 0)\<rparr>"
    by (simp add: start_segment_def Let_def)
  have c: "(x\<lparr>curTonePos := q\<rparr>)\<lparr>numRemaining := 0\<rparr> = (x\<lparr>numRemaining := 0\<rparr>)\<lparr>curTonePos := q\<rparr>"
    for x :: EffectDtmf and q by simp
  show ?case
    unfolding segments.simps Let_def s by (simp only: c Suc.IH) simp
qed

lemma segments_nonneg:
  "0 \<le> numSamplesTone e \<Longrightarrow> 0 \<le> numSamplesSilence e \<Longrightarrow> 0 \<le> sum_list (map snd (segments k e))"
  unfolding segments_sum by (auto simp: min_def max_def)

lemma run_invariant_curSeqPos:
  assumes "run_invariant e"
  shows "- 1 \<le> curSeqPos e" and "curSeqPos e \<le> dtmfNTones (mSettings e) - 1"
    and "isTone e \<Longrightarrow> 0 \<le> curSeqPos e"
  using assms by (auto simp: run_invariant_def segment_index_def split: if_splits)

text \<open>Starting a segment keeps the samples that are left.\<close>
lemma start_segment_step:
  assumes inv: "run_invariant e" and left: "0 < segments_left e"
  shows "run_invariant (start_segment e)"
    and "segments_left (start_segment e) = segments_left e - 1"
    and "numRemaining (start_segment e)
           + sum_list (map snd (segments (segments_left e - 1) (start_segment e)))
         = sum_list (map snd (segments (segments_left e) e))"
proof -
  have idx: "segment_index (start_segment e) = segment_index e + 1"
    by (simp add: segment_index_def)
  from left have lt: "segment_index e < 2 * dtmfNTones (mSettings e) - 1"
    by (simp add: segments_left_def)
  show "run_invariant (start_segment e)"
    using inv lt unfolding run_invariant_def idx by auto
  show "segments_left (start_segment e) = segments_left e - 1"
    unfolding segments_left_def idx by simp
  from left obtain k where k: "segments_left e = Suc k" by (cases "segments_left e") auto
  show "numRemaining (start_segment e)
           + sum_list (map snd (segments (segments_left e - 1) (start_segment e)))
         = sum_list (map snd (segments (segments_left e) e))"
    unfolding k by (simp add: Let_def)
qed

lemma ProcessBlock_loop_done: "ProcessBlock_loop e 0 out p = Some (Inr (p, out, e))"
  by (subst ProcessBlock_loop.simps) simp

lemma ProcessBlock_loop_tone:
  assumes "sz \<noteq> 0"
    and "e1 = (if numRemaining e = 0 then start_segment e else e)"
    and "len = limitSampleBufferSize sz (numRemaining e1)"
    and "isTone e1"
    and "sequence_at (dtmfSequence (mSettings e1)) (curSeqPos e1) = Inr tone"
    and "MakeDtmfTone len (mSampleRate e1) tone (curTonePos e1) (numSamplesTone e1)
           (dtmfAmplitude (mSettings e1)) = Inr samples"
  shows "ProcessBlock_loop e sz out p =
     ProcessBlock_loop
       (e1\<lparr>curTonePos := curTonePos e1 + int len, numRemaining := numRemaining e1 - int len\<rparr>)
       (sz - len) (out @ samples) (p + len)"
  using assms(1,4) assms(5,6)[unfolded assms(2,3)] unfolding assms(2,3)
  by (subst ProcessBlock_loop.simps) (simp add: Let_def)

lemma ProcessBlock_loop_silence:
  assumes "sz \<noteq> 0"
    and "e1 = (if numRemaining e = 0 then start_segment e else e)"
    and "len = limitSampleBufferSize sz (numRemaining e1)"
    and "\<not> isTone e1"
  shows "ProcessBlock_loop e sz out p =
     ProcessBlock_loop (e1\<lparr>numRemaining := numRemaining e1 - int len\<rparr>)
       (sz - len) (out @ replicate len 0) (p + len)"
  using assms(1,4) unfolding assms(2,3)
  by (subst ProcessBlock_loop.simps) (simp add: Let_def)

lemma MakeDtmfTone_length:
  "\<exists>samples. MakeDtmfTone len fs tone last_pos total_len amplitude = Inr samples
     \<and> length samples = len"
  unfolding MakeDtmfTone_result by simp

lemma ProcessBlock_loop_runs:
  assumes "run_invariant e" and "int sz \<le> samples_left e"
  shows "\<exists>out' e'. ProcessBlock_loop e sz out p = Some (Inr (p + sz, out @ out', e'))
     \<and> length out' = sz \<and> run_invariant e' \<and> samples_left e' = samples_left e - int sz
     \<and> mSettings e' = mSettings e"
  using assms
proof (induction "sz + segments_left e" arbitrary: e sz out p rule: less_induct)
  case less
  note inv = less.prems(1) and avail = less.prems(2)
  show ?case
  proof (cases "sz = 0")
    case True
    then show ?thesis using inv by (simp add: ProcessBlock_loop_done)
  next
    case False
    define e1 where "e1 = (if numRemaining e = 0 then start_segment e else e)"
    define len where "len = limitSampleBufferSize sz (numRemaining e1)"
    have e1: "run_invariant e1 \<and> samples_left e1 = samples_left e
        \<and> mSettings e1 = mSettings e
        \<and> (if numRemaining e = 0
            then 0 < segments_left e \<and> segments_left e1 = segments_left e - 1
            else segments_left e1 = segments_left e \<and> 0 < numRemaining e1)"
    proof (cases "numRemaining e = 0")
      case True
      have pos: "0 < segments_left e"
      proof (rule ccontr)
        assume "\<not> 0 < segments_left e"
        then have "samples_left e = 0" using True by (simp add: samples_left_def)
        with avail False show False by simp
      qed
      note st = start_segment_step[OF inv pos]
      have "samples_left (start_segment e) = samples_left e"
        unfolding samples_left_def st(2) using st(3) True by simp
      then show ?thesis using True st(1,2) pos by (simp add: e1_def)
    next
      case False
      then have "0 < numRemaining e" using inv by (simp add: run_invariant_def)
      then show ?thesis using False inv by (simp add: e1_def)
    qed
    then have inv1: "run_invariant e1" and left1: "samples_left e1 = samples_left e"
      and set1: "mSettings e1 = mSettings e"
      by simp_all
    have r1: "0 \<le> numRemaining e1" using inv1 by (simp add: run_invariant_def)
    have len_eq: "int len = min (int sz) (numRemaining e1)"
      using r1 by (simp add: len_def limitSampleBufferSize_def)
    have len_le: "len \<le> sz" using len_eq by linarith
    define upd where "upd = (\<lambda>x::EffectDtmf.
        if isTone e1 then x\<lparr>curTonePos := curTonePos e1 + int len\<rparr> else x)"
    define e2 where "e2 = (upd e1)\<lparr>numRemaining := numRemaining e1 - int len\<rparr>"
    have inv2: "run_invariant e2"
      using inv1 len_eq
      by (cases "isTone e1") (simp_all add: e2_def upd_def run_invariant_def segment_index_def)
    have sl2: "segments_left e2 = segments_left e1"
      by (simp add: e2_def upd_def segments_left_def segment_index_def)
    have set2: "mSettings e2 = mSettings e1" by (simp add: e2_def upd_def)
    have left2: "samples_left e2 = samples_left e1 - int len"
      unfolding samples_left_def sl2 by (simp add: e2_def upd_def)
    have avail2: "int (sz - len) \<le> samples_left e2"
      using avail len_le unfolding left2 left1 by simp
    have less2: "(sz - len) + segments_left e2 < sz + segments_left e"
    proof (cases "numRemaining e = 0")
      case True
      with e1 have "0 < segments_left e" and "segments_left e1 = segments_left e - 1"
        by simp_all
      then show ?thesis using sl2 by linarith
    next
      case False
      with e1 have "0 < numRemaining e1" and "segments_left e1 = segments_left e" by simp_all
      with len_eq \<open>sz \<noteq> 0\<close> have "0 < len" by simp
      then show ?thesis using sl2 \<open>segments_left e1 = segments_left e\<close> \<open>sz \<noteq> 0\<close> by simp
    qed
    obtain chunk where chunk: "length chunk = len"
      and step: "ProcessBlock_loop e sz out p = ProcessBlock_loop e2 (sz - len) (out @ chunk) (p + len)"
    proof (cases "isTone e1")
      case True
      from run_invariant_curSeqPos[OF inv1] True inv1
      have "0 \<le> curSeqPos e1" and "curSeqPos e1 < int (length (dtmfSequence (mSettings e1)))"
        by (simp_all add: run_invariant_def)
      then have sq: "sequence_at (dtmfSequence (mSettings e1)) (curSeqPos e1)
          = Inr (dtmfSequence (mSettings e1) ! nat (curSeqPos e1))"
        by (simp add: sequence_at_def)
      from MakeDtmfTone_length obtain samples
        where s: "MakeDtmfTone len (mSampleRate e1) (dtmfSequence (mSettings e1) ! nat (curSeqPos e1))
           (curTonePos e1) (numSamplesTone e1) (dtmfAmplitude (mSettings e1)) = Inr samples"
          and sl: "length samples = len"
        by blast
      have "ProcessBlock_loop e sz out p = ProcessBlock_loop e2 (sz - len) (out @ samples) (p + len)"
        using ProcessBlock_loop_tone[OF False e1_def len_def True sq s, of out p] True
        by (simp add: e2_def upd_def)
      then show ?thesis using sl that[of samples] by simp
    next
      case False
      have "ProcessBlock_loop e sz out p
          = ProcessBlock_loop e2 (sz - len) (out @ replicate len 0) (p + len)"
        using ProcessBlock_loop_silence[OF \<open>sz \<noteq> 0\<close> e1_def len_def False, of out p] False
        by (simp add: e2_def upd_def)
      then show ?thesis using that[of "replicate len 0"] by simp
    qed
    from less.hyps[OF less2 inv2 avail2, of "out @ chunk" "p + len"]
    obtain out' e' where r: "ProcessBlock_loop e2 (sz - len) (out @ chunk) (p + len)
          = Some (Inr (p + len + (sz - len), (out @ chunk) @ out', e'))"
      and l: "length out' = sz - len" and i: "run_invariant e'"
      and sl: "samples_left e' = samples_left e2 - int (sz - len)"
      and st: "mSettings e' = mSettings e2"
      by blast
    have "ProcessBlock_loop e sz out p = Some (Inr (p + sz, out @ (chunk @ out'), e'))"
      unfolding step r using len_le by simp
    moreover have "length (chunk @ out') = sz" using chunk l len_le by simp
    moreover have "samples_left e' = samples_left e - int sz"
      unfolding sl left2 left1 using len_le by simp
    moreover have "mSettings e' = mSettings e" using st set2 set1 by simp
    ultimately show ?thesis using i by blast
  qed
qed

lemma redistribute_loop_result:
  assumes N: "1 \<le> N"
    and r: "redistribute_loop N T t s (T - N * t - (N - 1) * s) = Some (Inr (t', s', d'))"
  shows "d' \<le> 2 * N - 1 \<and> d' = T - N * t' - (N - 1) * s' \<and> t \<le> t' \<and> s \<le> s'"
proof (cases "T - N * t - (N - 1) * s \<le> 2 * N - 1")
  case True
  with r show ?thesis by (auto simp: redistribute_loop_exit)
next
  case False
  define d where "d = T - N * t - (N - 1) * s"
  have dpos: "2 * N - 1 < d" using False by (simp add: d_def)
  have N2: "2 \<le> N"
  proof (rule ccontr)
    assume "\<not> 2 \<le> N"
    then have "N = 1" using N by simp
    then have "redistribute_loop N T t s d = Some (Inl DivideByZero)"
      using dpos by (subst redistribute_loop.simps) simp
    with r show False by (simp add: d_def)
  qed
  define t1 where "t1 = t + d sdiv N"
  define s1 where "s1 = s + d sdiv (N - 1)"
  define d1 where "d1 = T - N * t1 - (N - 1) * s1"
  have "d1 = d - N * (d sdiv N) - (N - 1) * (d sdiv (N - 1))"
    by (simp add: d1_def t1_def s1_def d_def algebra_simps)
  with redistribute_step_negative[OF N2 dpos] have neg: "d1 < 0" by simp
  have "redistribute_loop N T t s d = redistribute_loop N T t1 s1 d1"
    using dpos N2 by (subst redistribute_loop.simps) (simp add: t1_def s1_def d1_def)
  also have "\<dots> = Some (Inr (t1, s1, d1))"
    using neg N2 by (intro redistribute_loop_exit) linarith
  finally have eq: "t' = t1" "s' = s1" "d' = d1" using r by (simp_all add: d_def)
  have d0: "0 \<le> d" using dpos N2 by linarith
  have "0 \<le> d div N" using d0 N2 by (intro pos_imp_zdiv_nonneg_iff[THEN iffD2]) auto
  then have "t \<le> t1" using sdiv_pos[of d N] d0 N2 by (simp add: t1_def)
  moreover have "0 \<le> d div (N - 1)" using d0 N2 by (intro pos_imp_zdiv_nonneg_iff[THEN iffD2]) auto
  then have "s \<le> s1" using sdiv_pos[of d "N - 1"] d0 N2 by (simp add: s1_def)
  ultimately show ?thesis using neg N2 unfolding eq d1_def by auto
qed

lemma ProcessInitialize_success:
  assumes init: "ProcessInitialize e fl = Some (Inr (True, e0))"
  shows "1 \<le> dtmfNTones (mSettings e)"
    and "mSettings e0 = mSettings e"
    and "curSeqPos e0 = - 1" and "\<not> isTone e0" and "numRemaining e0 = 0"
    and "diff e0 \<le> 2 * dtmfNTones (mSettings e) - 1"
    and "diff e0 = numSamplesSequence e0 - dtmfNTones (mSettings e) * numSamplesTone e0
            - (dtmfNTones (mSettings e) - 1) * numSamplesSilence e0"
    and "floorTone fl \<le> numSamplesTone e0"
    and "floorSilence fl \<le> numSamplesSilence e0"
    and "numSamplesSequence e0 = nT1 fl - nT0 fl"
proof -
  define N where "N = dtmfNTones (mSettings e)"
  define T where "T = nT1 fl - nT0 fl"
  define t where "t = floorTone fl"
  define s where "s = floorSilence fl"
  have N1: "1 \<le> N"
  proof (rule ccontr)
    assume "\<not> 1 \<le> N"
    then have "ProcessInitialize e fl = Some (Inr (False, e))"
      by (simp add: ProcessInitialize_def N_def)
    with init show False by simp
  qed
  then have nz: "\<not> N \<le> 0" by simp
  from init nz obtain t' s' d'
    where r: "redistribute_loop N T t s (T - N * t - (N - 1) * s) = Some (Inr (t', s', d'))"
      and e0: "e0 = e\<lparr>numSamplesSequence := T, numSamplesTone := t', numSamplesSilence := s',
               diff := d', curSeqPos := - 1, isTone := False, numRemaining := 0\<rparr>"
    unfolding ProcessInitialize_def Let_def N_def T_def t_def s_def
    by (auto split: option.splits sum.splits if_splits)
  note res = redistribute_loop_result[OF N1 r]
  show "1 \<le> dtmfNTones (mSettings e)" using N1 by (simp add: N_def)
  show "mSettings e0 = mSettings e" "curSeqPos e0 = - 1" "\<not> isTone e0" "numRemaining e0 = 0"
    by (simp_all add: e0)
  show "diff e0 \<le> 2 * dtmfNTones (mSettings e) - 1" using res by (simp add: e0 N_def)
  show "diff e0 = numSamplesSequence e0 - dtmfNTones (mSettings e) * numSamplesTone e0
            - (dtmfNTones (mSettings e) - 1) * numSamplesSilence e0"
    using res by (simp add: e0 N_def)
  show "floorTone fl \<le> numSamplesTone e0" using res by (simp add: e0 t_def)
  show "floorSilence fl \<le> numSamplesSilence e0" using res by (simp add: e0 s_def)
  show "numSamplesSequence e0 = nT1 fl - nT0 fl" by (simp add: e0 T_def)
qed

lemma ProcessBlocks_run:
  assumes "run_invariant e" and "int (sum_list sizes) \<le> samples_left e"
  shows "\<exists>out e'. ProcessBlocks e sizes = Some (Inr (sizes, out, e'))
     \<and> length out = sum_list sizes \<and> run_invariant e' \<and> mSettings e' = mSettings e"
  using assms
proof (induction sizes arbitrary: e)
  case Nil
  then show ?case by simp
next
  case (Cons sz sizes)
  have a: "int sz \<le> samples_left e" using Cons.prems(2) by simp
  from ProcessBlock_loop_runs[OF Cons.prems(1) a, of "[]" 0]
  obtain out1 e1 where b: "ProcessBlock e sz = Some (Inr (sz, out1, e1))"
    and l1: "length out1 = sz" and i1: "run_invariant e1"
    and s1: "samples_left e1 = samples_left e - int sz" and m1: "mSettings e1 = mSettings e"
    by (auto simp: ProcessBlock_def)
  have "int (sum_list sizes) \<le> samples_left e1" using Cons.prems(2) s1 by simp
  from Cons.IH[OF i1 this] obtain out2 e2
    where c: "ProcessBlocks e1 sizes = Some (Inr (sizes, out2, e2))"
      and l2: "length out2 = sum_list sizes" and i2: "run_invariant e2"
      and m2: "mSettings e2 = mSettings e1"
    by blast
  have "ProcessBlocks e (sz # sizes) = Some (Inr (sz # sizes, out1 @ out2, e2))"
    by (simp add: b c)
  then show ?case using l1 l2 i2 m1 m2 by simp
qed

lemma ProcessBlocks_stay_within_sequence:
  assumes init: "ProcessInitialize e fl = Some (Inr (True, e0))"
    and len: "dtmfNTones (mSettings e) = int (length (dtmfSequence (mSettings e)))"
    and tone: "0 \<le> floorTone fl"
    and silence: "0 \<le> floorSilence fl"
    and total: "int (sum_list sizes) \<le> numSamplesSequence e0"
  shows "\<exists>out e'. ProcessBlocks e0 sizes = Some (Inr (sizes, out, e'))
     \<and> length out = sum_list sizes
     \<and> - 1 \<le> curSeqPos e' \<and> curSeqPos e' \<le> dtmfNTones (mSettings e) - 1
     \<and> curSeqPos e' < int (length (dtmfSequence (mSettings e')))"
proof -
  define N where "N = dtmfNTones (mSettings e)"
  note p = ProcessInitialize_success[OF init, folded N_def]
  have t0: "0 \<le> numSamplesTone e0" using p(8) tone by linarith
  have s0: "0 \<le> numSamplesSilence e0" using p(9) silence by linarith
  have idx: "segment_index e0 = 0" using p(3,4) by (simp add: segment_index_def)
  have inv: "run_invariant e0"
    using p(1,2,5) len t0 s0 idx by (auto simp: run_invariant_def N_def)
  have k: "segments_left e0 = nat (2 * N - 1)"
    using p(2) idx by (simp add: segments_left_def N_def)
  have k1: "(nat (2 * N - 1) + 1) div 2 = nat N" using p(1) by linarith
  have k2: "nat (2 * N - 1) div 2 = nat (N - 1)" using p(1) by linarith
  have "samples_left e0 = int (nat N) * numSamplesTone e0 + int (nat (N - 1)) * numSamplesSilence e0
      + min (max (diff e0) 0) (int (nat (2 * N - 1)))"
    unfolding samples_left_def k segments_sum k1 k2 using p(4,5) by simp
  also have "\<dots> = N * numSamplesTone e0 + (N - 1) * numSamplesSilence e0 + max (diff e0) 0"
    using p(1,6) by simp
  also have "\<dots> \<ge> numSamplesSequence e0" using p(7) by simp
  finally have "int (sum_list sizes) \<le> samples_left e0" using total by simp
  from ProcessBlocks_run[OF inv this] obtain out e'
    where r: "ProcessBlocks e0 sizes = Some (Inr (sizes, out, e'))"
      and l: "length out = sum_list sizes" and i: "run_invariant e'"
      and m: "mSettings e' = mSettings e0"
    by blast
  have "- 1 \<le> curSeqPos e'" "curSeqPos e' \<le> dtmfNTones (mSettings e') - 1"
    using run_invariant_curSeqPos[OF i] by simp_all
  moreover have "dtmfNTones (mSettings e') = int (length (dtmfSequence (mSettings e')))"
    using i by (simp add: run_invariant_def)
  ultimately show ?thesis using r l m p(2) by (intro exI[of _ out] exI[of _ e']) simp
qed

lemma limitSampleBufferSize_le: "limitSampleBufferSize sz r \<le> sz"
  by (simp add: limitSampleBufferSize_def)

lemma ProcessBlock_loop_returns_size:
  assumes "ProcessBlock_loop e sz out p = Some y"
  shows "\<forall>p' out' e'. y = Inr (p', out', e') \<longrightarrow> p' = p + sz \<and> length out' = length out + sz"
proof (rule ProcessBlock_loop.raw_induct[where P = "\<lambda>e sz out p y.
    \<forall>p' out' e'. y = Inr (p', out', e') \<longrightarrow> p' = p + sz \<and> length out' = length out + sz",
    OF _ assms], goal_cases)
  case (1 f e sz out p y)
  note hyps = "1"(2) and IH = "1"(1)
  show ?case
  proof (cases "sz = 0")
    case True
    with hyps show ?thesis by auto
  next
    case False
    define e1 where "e1 = (if numRemaining e = 0 then start_segment e else e)"
    define len where "len = limitSampleBufferSize sz (numRemaining e1)"
    have le: "len \<le> sz" unfolding len_def by (rule limitSampleBufferSize_le)
    show ?thesis
    proof (cases "isTone e1")
      case True
      show ?thesis
      proof (cases "sequence_at (dtmfSequence (mSettings e1)) (curSeqPos e1)")
        case (Inl a)
        with hyps False True show ?thesis
          by (auto simp: Let_def e1_def[symmetric])
      next
        case (Inr tone)
        from MakeDtmfTone_length obtain samples
          where s: "MakeDtmfTone len (mSampleRate e1) tone (curTonePos e1) (numSamplesTone e1)
              (dtmfAmplitude (mSettings e1)) = Inr samples"
            and sl: "length samples = len"
          by blast
        have "f (e1\<lparr>curTonePos := curTonePos e1 + int len,
                   numRemaining := numRemaining e1 - int len\<rparr>)
                (sz - len) (out @ samples) (p + len) = Some y"
          using hyps False True Inr s
          by (simp add: Let_def e1_def[symmetric] len_def[symmetric])
        from IH[OF this] show ?thesis using le sl by auto
      qed
    next
      case False
      have "f (e1\<lparr>numRemaining := numRemaining e1 - int len\<rparr>)
              (sz - len) (out @ replicate len 0) (p + len) = Some y"
        using hyps \<open>sz \<noteq> 0\<close> False
        by (simp add: Let_def e1_def[symmetric] len_def[symmetric])
      from IH[OF this] show ?thesis using le by auto
    qed
  qed
qed

lemma ProcessBlock_returns_size:
  "ProcessBlock e sz = Some (Inr (p, out, e')) \<Longrightarrow> p = sz \<and> length out = sz"
  using ProcessBlock_loop_returns_size[of e sz "[]" 0] by (simp add: ProcessBlock_def)



subsection \<open>Reading automation parameters\<close>



section \<open>The claims\<close>

text \<open>
  C1. Every configuration that \<open>ProcessInitialize\<close> accepts is to give \<open>2N - 1\<close> segments, \<open>N\<close>
  tones and \<open>N - 1\<close> silences, whose lengths add up to \<open>numSamplesSequence\<close> exactly. The code
  does not keep this. For the sequence \<open>audacity\<close> with duty cycle 55 and 7.55 s from 0.175 s
  at 44100 Hz, double arithmetic gives \<open>nT0 = 7717\<close>, \<open>nT1 = 340673\<close>, a tone floor of 24254 and a
  silence floor of 19844, so \<open>numSamplesSequence = 332956\<close> and \<open>diff = 16 > 2N - 1 = 15\<close>. The
  loop body runs once, adds \<open>16 / 8 = 2\<close> to every tone and \<open>16 / 7 = 2\<close> to every silence and
  leaves \<open>diff = -14\<close>. The fifteen segments of \<open>ProcessBlock\<close> then add up to 332970, and a
  block of 332956 samples ends 14 samples before the end of the last tone.
\<close>

theorem segment_lengths_miss_total:
  "\<exists>e0 out e'.
     ProcessInitialize (configured ''audacity'' 55 0.8 7.55 0.175 44100)
         \<lparr>nT0 = 7717, nT1 = 340673, floorTone = 24254, floorSilence = 19844\<rparr>
       = Some (Inr (True, e0))
     \<and> numSamplesSequence e0 = 332956 \<and> diff e0 = - 14
     \<and> length (segments 15 e0) = 15
     \<and> sum_list (map snd (segments 15 e0)) = 332970
     \<and> ProcessBlock e0 332956 = Some (Inr (332956, out, e'))
     \<and> samples_left e' = 14"
proof -
  define X where "X = configured ''audacity'' 55 0.8 7.55 0.175 44100"
  define e0 where "e0 = X\<lparr>numSamplesSequence := 332956, numSamplesTone := 24256,
       numSamplesSilence := 19846, diff := - 14, curSeqPos := - 1, isTone := False,
       numRemaining := 0\<rparr>"
  have N: "dtmfNTones (mSettings X) = 8" "length (dtmfSequence (mSettings X)) = 8"
    by (simp_all add: X_def configured_fields)
  have loop: "redistribute_loop 8 332956 24254 19844 16 = Some (Inr (24256, 19846, - 14))"
    apply (subst redistribute_loop.simps)
    apply (simp add: signed_divide_int_def)
    apply (subst redistribute_loop.simps)
    apply simp
    done
  have init: "ProcessInitialize X
         \<lparr>nT0 = 7717, nT1 = 340673, floorTone = 24254, floorSilence = 19844\<rparr>
       = Some (Inr (True, e0))"
    by (simp add: ProcessInitialize_def N loop e0_def)
  have total: "sum_list (map snd (segments 15 e0)) = 332970"
    unfolding segments_sum by (simp add: e0_def)
  have inv: "run_invariant e0"
    by (simp add: run_invariant_def segment_index_def e0_def N)
  have sl: "segments_left e0 = 15"
    by (simp add: segments_left_def segment_index_def e0_def N)
  have left: "samples_left e0 = 332970"
    unfolding samples_left_def sl total by (simp add: e0_def)
  have "int 332956 \<le> samples_left e0" unfolding left by simp
  from ProcessBlock_loop_runs[OF inv this, of "[]" 0]
  obtain out e' where run: "ProcessBlock e0 332956 = Some (Inr (332956, out, e'))"
    and rest: "samples_left e' = 14"
    unfolding left by (auto simp: ProcessBlock_def)
  have "numSamplesSequence e0 = 332956" "diff e0 = - 14" by (simp_all add: e0_def)
  then show ?thesis
    using init total run rest segments_length[of 15 e0] unfolding X_def by blast
qed

text \<open>
  The same sum fails without the loop, through a remainder that is negative from the start:
  1 s of the single tone \<open>1\<close> from 0.005 s at 44100 Hz has \<open>numSamplesSequence = 44099\<close> and a
  tone floor of 44100, so \<open>diff = -1\<close> and the one segment is 44100 samples long.
\<close>

lemma single_tone_segment_exceeds_total:
  "planned_segments (configured ''1'' 55 0.8 1 0.005 44100)
       \<lparr>nT0 = 221, nT1 = 44320, floorTone = 44100, floorSilence = 0\<rparr>
     = Some [(True, 44100)]"
  by (simp add: planned_segments_def ProcessInitialize_def configured_fields
      redistribute_loop_exit segments_unfold)

text \<open>
  Where the remainder computed before the loop lies between 0 and \<open>2N - 1\<close>, the code does what
  it sets out to do: \<open>numSamplesSequence\<close> is \<open>nT1 - nT0\<close>, and the \<open>2N - 1\<close> segments, \<open>N\<close> of
  them tones, have lengths that add up to it.
\<close>

lemma segment_lengths_exact_when_remainder_fits:
  assumes N: "1 \<le> dtmfNTones (mSettings e)"
    and lo: "0 \<le> initial_remainder e fl"
    and hi: "initial_remainder e fl \<le> 2 * dtmfNTones (mSettings e) - 1"
  shows "\<exists>e'. ProcessInitialize e fl = Some (Inr (True, e'))
     \<and> numSamplesSequence e' = nT1 fl - nT0 fl
     \<and> length (filter fst (segments (nat (2 * dtmfNTones (mSettings e) - 1)) e'))
         = nat (dtmfNTones (mSettings e))
     \<and> length (segments (nat (2 * dtmfNTones (mSettings e) - 1)) e')
         = nat (dtmfNTones (mSettings e)) + nat (dtmfNTones (mSettings e) - 1)
     \<and> sum_list (map snd (segments (nat (2 * dtmfNTones (mSettings e) - 1)) e'))
         = numSamplesSequence e'"
proof -
  define N where "N = dtmfNTones (mSettings e)"
  have N1: "1 \<le> N" using N by (simp add: N_def)
  note init = ProcessInitialize_no_loop[OF N hi]
  have k1: "(nat (2 * N - 1) + 1) div 2 = nat N" using N1 by linarith
  have k2: "nat (2 * N - 1) div 2 = nat (N - 1)" using N1 by linarith
  have m: "min (max (initial_remainder e fl) 0) (int (nat (2 * N - 1))) = initial_remainder e fl"
    using lo hi N1 by (simp add: N_def)
  define T where "T = nT1 fl - nT0 fl"
  define t where "t = floorTone fl"
  define s where "s = floorSilence fl"
  define e' where "e' = e\<lparr>numSamplesSequence := T, numSamplesTone := t, numSamplesSilence := s,
       diff := initial_remainder e fl, curSeqPos := - 1, isTone := False, numRemaining := 0\<rparr>"
  have c1: "ProcessInitialize e fl = Some (Inr (True, e'))"
    unfolding init e'_def T_def t_def s_def by (rule refl)
  have c2: "numSamplesSequence e' = T" by (simp add: e'_def)
  have c3: "length (filter fst (segments (nat (2 * N - 1)) e')) = nat N"
    by (simp add: segments_tones k1 e'_def)
  have c4: "length (segments (nat (2 * N - 1)) e') = nat N + nat (N - 1)"
    using N1 by (simp add: segments_length)
  have d: "initial_remainder e fl = T - N * t - (N - 1) * s"
    by (simp add: initial_remainder_def T_def t_def s_def N_def)
  have sel: "isTone e' = False" "numSamplesTone e' = t" "numSamplesSilence e' = s"
    "diff e' = initial_remainder e fl"
    by (simp_all add: e'_def)
  have "sum_list (map snd (segments (nat (2 * N - 1)) e'))
      = int (nat N) * t + int (nat (N - 1)) * s + initial_remainder e fl"
    unfolding segments_sum sel k1 k2 m by simp
  also have "\<dots> = T" using N1 by (simp add: d)
  finally have c5: "sum_list (map snd (segments (nat (2 * N - 1)) e')) = numSamplesSequence e'"
    using c2 by simp
  show ?thesis
    using c1 c2 c3 c4 c5 unfolding N_def T_def by blast
qed




text \<open>
  C5. \<open>ProcessInitialize\<close> is to return \<open>false\<close> for a tone count that is zero or negative and
  \<open>true\<close> for every tone count of at least 1. For an empty sequence and for two tones or more
  it does (\<open>ProcessInitialize_returns\<close>). For a single tone the code does not keep this: for the
  sequence \<open>1\<close> with 0.35 s from 0.285 s at 44100 Hz, settings up to date, double arithmetic
  gives \<open>nT0 = 12568\<close>, \<open>nT1 = 28004\<close> and a tone floor of 15434, so \<open>diff = 2 > 2N - 1 = 1\<close>;
  the loop body runs and divides by \<open>dtmfNTones - 1 = 0\<close>, and no value is returned.
\<close>

theorem ProcessInitialize_single_tone_fault:
  "Recalculate (configured ''1'' 55 0.8 0.35 0.285 44100) = configured ''1'' 55 0.8 0.35 0.285 44100
   \<and> dtmfNTones (mSettings (configured ''1'' 55 0.8 0.35 0.285 44100)) = 1
   \<and> initial_remainder (configured ''1'' 55 0.8 0.35 0.285 44100)
        \<lparr>nT0 = 12568, nT1 = 28004, floorTone = 15434, floorSilence = 0\<rparr> = 2
   \<and> ProcessInitialize (configured ''1'' 55 0.8 0.35 0.285 44100)
        \<lparr>nT0 = 12568, nT1 = 28004, floorTone = 15434, floorSilence = 0\<rparr>
     = Some (Inl DivideByZero)"
proof -
  have loop: "redistribute_loop 1 15436 15434 0 2 = Some (Inl DivideByZero)"
    by (subst redistribute_loop.simps) simp
  show ?thesis
    by (simp add: configured_current configured_fields initial_remainder_def
        ProcessInitialize_def loop)
qed

text \<open>
  C6. \<open>Recalculate\<close> sets \<open>dtmfNTones\<close> to the length of the sequence. For length 0 the
  duration becomes 0 and \<open>dtmfTone\<close> and \<open>dtmfSilence\<close> are 0; for length 1 \<open>dtmfTone\<close> is the
  whole duration and \<open>dtmfSilence\<close> is 0; otherwise \<open>dtmfTone = slot * (dutyCycle / 100)\<close> and
  \<open>dtmfSilence = slot * (1 - dutyCycle / 100)\<close> with
  \<open>slot = duration / (N + dutyCycle / 100 - 1)\<close>.
\<close>

theorem Recalculate_derived_fields:
  "dtmfNTones (mSettings (Recalculate e)) = int (length (dtmfSequence (mSettings e)))
   \<and> (length (dtmfSequence (mSettings e)) = 0 \<longrightarrow>
         mDuration (Recalculate e) = 0
         \<and> dtmfTone (mSettings (Recalculate e)) = 0
         \<and> dtmfSilence (mSettings (Recalculate e)) = 0)
   \<and> (length (dtmfSequence (mSettings e)) = 1 \<longrightarrow>
         mDuration (Recalculate e) = mDuration e
         \<and> dtmfTone (mSettings (Recalculate e)) = mDuration e
         \<and> dtmfSilence (mSettings (Recalculate e)) = 0)
   \<and> (1 < length (dtmfSequence (mSettings e)) \<longrightarrow>
         mDuration (Recalculate e) = mDuration e
         \<and> dtmfTone (mSettings (Recalculate e)) =
             mDuration e / (real (length (dtmfSequence (mSettings e)))
                            + dtmfDutyCycle (mSettings e) / 100 - 1)
               * (dtmfDutyCycle (mSettings e) / 100)
         \<and> dtmfSilence (mSettings (Recalculate e)) =
             mDuration e / (real (length (dtmfSequence (mSettings e)))
                            + dtmfDutyCycle (mSettings e) / 100 - 1)
               * (1 - dtmfDutyCycle (mSettings e) / 100))"
  by (auto simp: Recalculate_def Let_def)

theorem Recalculate_derived_fields_witness:
  "mDuration (Recalculate (configured '''' 50 1 3 0 8000)) = 0
   \<and> dtmfTone (mSettings (Recalculate (configured ''7'' 50 1 3 0 8000))) = 3
   \<and> dtmfTone (mSettings (Recalculate (configured ''123'' 50 1 3 0 8000))) = 3 / 5
   \<and> dtmfSilence (mSettings (Recalculate (configured ''123'' 50 1 3 0 8000))) = 3 / 5"
  using Recalculate_derived_fields[of "configured '''' 50 1 3 0 8000"]
    Recalculate_derived_fields[of "configured ''7'' 50 1 3 0 8000"]
    Recalculate_derived_fields[of "configured ''123'' 50 1 3 0 8000"]
  by (simp add: configured_fields) (simp add: configured_def Recalculate_def)

text \<open>
  C7, as amended. For more than one tone, settings that are up to date and integers that are
  close to the exact values (\<open>floors_close\<close>, which holds of the exact floors and of what
  doubles give): with a duty cycle of 100 \<open>dtmfSilence\<close> is 0, the nominal silence length
  \<open>numSamplesSilence\<close> is 0, and every silence segment is 0 or 1 samples long; with a duty
  cycle of 0 the same holds of \<open>dtmfTone\<close>, \<open>numSamplesTone\<close> and every tone segment.
\<close>

theorem extreme_duty_cycle_slots:
  assumes N: "1 < dtmfNTones (mSettings e)" and cur: "Recalculate e = e"
    and close: "floors_close e fl"
  shows "(dtmfDutyCycle (mSettings e) = 100 \<longrightarrow>
            dtmfSilence (mSettings e) = 0
            \<and> (\<exists>e'. ProcessInitialize e fl = Some (Inr (True, e')) \<and> numSamplesSilence e' = 0
                  \<and> (\<forall>k n. (False, n) \<in> set (segments k e') \<longrightarrow> n = 0 \<or> n = 1)))
       \<and> (dtmfDutyCycle (mSettings e) = 0 \<longrightarrow>
            dtmfTone (mSettings e) = 0
            \<and> (\<exists>e'. ProcessInitialize e fl = Some (Inr (True, e')) \<and> numSamplesTone e' = 0
                  \<and> (\<forall>k n. (True, n) \<in> set (segments k e') \<longrightarrow> n = 0 \<or> n = 1)))"
proof -
  have N1: "1 \<le> dtmfNTones (mSettings e)" and N2: "2 \<le> dtmfNTones (mSettings e)"
    using N by simp_all
  note f = current_many[OF cur N2]
  show ?thesis
  proof (intro conjI impI)
    assume dc: "dtmfDutyCycle (mSettings e) = 100"
    then show z: "dtmfSilence (mSettings e) = 0" using f by simp
    have dc0: "0 \<le> dtmfDutyCycle (mSettings e)" using dc by simp
    note init = ProcessInitialize_no_loop[OF N1 close_remainder_no_silence[OF cur N2 dc0 close z]]
    define e' where "e' = e\<lparr>numSamplesSequence := nT1 fl - nT0 fl,
       numSamplesTone := floorTone fl, numSamplesSilence := floorSilence fl,
       diff := initial_remainder e fl, curSeqPos := - 1, isTone := False, numRemaining := 0\<rparr>"
    have i: "ProcessInitialize e fl = Some (Inr (True, e'))" unfolding init e'_def by (rule refl)
    have "floorSilence fl = 0" using close z by (simp add: floors_close_def)
    then have s0: "numSamplesSilence e' = 0" by (simp add: e'_def)
    have "n = 0 \<or> n = 1" if "(False, n) \<in> set (segments k e')" for k n
      using segments_member[OF that] s0 by simp
    with i s0 show "\<exists>e'. ProcessInitialize e fl = Some (Inr (True, e')) \<and> numSamplesSilence e' = 0
                  \<and> (\<forall>k n. (False, n) \<in> set (segments k e') \<longrightarrow> n = 0 \<or> n = 1)"
      by blast
  next
    assume dc: "dtmfDutyCycle (mSettings e) = 0"
    then show z: "dtmfTone (mSettings e) = 0" using f by simp
    have dc0: "0 \<le> dtmfDutyCycle (mSettings e)" using dc by simp
    note init = ProcessInitialize_no_loop[OF N1 close_remainder_no_tone[OF cur N2 dc0 close z]]
    define e' where "e' = e\<lparr>numSamplesSequence := nT1 fl - nT0 fl,
       numSamplesTone := floorTone fl, numSamplesSilence := floorSilence fl,
       diff := initial_remainder e fl, curSeqPos := - 1, isTone := False, numRemaining := 0\<rparr>"
    have i: "ProcessInitialize e fl = Some (Inr (True, e'))" unfolding init e'_def by (rule refl)
    have "floorTone fl = 0" using close z by (simp add: floors_close_def)
    then have s0: "numSamplesTone e' = 0" by (simp add: e'_def)
    have "n = 0 \<or> n = 1" if "(True, n) \<in> set (segments k e')" for k n
      using segments_member[OF that] s0 by simp
    with i s0 show "\<exists>e'. ProcessInitialize e fl = Some (Inr (True, e')) \<and> numSamplesTone e' = 0
                  \<and> (\<forall>k n. (True, n) \<in> set (segments k e') \<longrightarrow> n = 0 \<or> n = 1)"
      by blast
  qed
qed

theorem extreme_duty_cycle_slots_witness:
  "dtmfSilence (mSettings (configured ''123'' 100 1 1 0 8000)) = 0
   \<and> (\<exists>e'. ProcessInitialize (configured ''123'' 100 1 1 0 8000)
              \<lparr>nT0 = 0, nT1 = 8000, floorTone = 2666, floorSilence = 0\<rparr> = Some (Inr (True, e'))
          \<and> numSamplesSilence e' = 0)
   \<and> dtmfTone (mSettings (configured ''123'' 0 1 1 0 8000)) = 0
   \<and> (\<exists>e'. ProcessInitialize (configured ''123'' 0 1 1 0 8000)
              \<lparr>nT0 = 0, nT1 = 8000, floorTone = 0, floorSilence = 4000\<rparr> = Some (Inr (True, e'))
          \<and> numSamplesTone e' = 0)"
proof -
  have a: "1 < dtmfNTones (mSettings (configured ''123'' 100 1 1 0 8000))"
    "Recalculate (configured ''123'' 100 1 1 0 8000) = configured ''123'' 100 1 1 0 8000"
    "dtmfDutyCycle (mSettings (configured ''123'' 100 1 1 0 8000)) = 100"
    by (simp_all add: configured_current configured_fields)
  have ca: "floors_close (configured ''123'' 100 1 1 0 8000)
      \<lparr>nT0 = 0, nT1 = 8000, floorTone = 2666, floorSilence = 0\<rparr>"
    by (simp add: floors_close_def configured_def Recalculate_def)
  have b: "1 < dtmfNTones (mSettings (configured ''123'' 0 1 1 0 8000))"
    "Recalculate (configured ''123'' 0 1 1 0 8000) = configured ''123'' 0 1 1 0 8000"
    "dtmfDutyCycle (mSettings (configured ''123'' 0 1 1 0 8000)) = 0"
    by (simp_all add: configured_current configured_fields)
  have cb: "floors_close (configured ''123'' 0 1 1 0 8000)
      \<lparr>nT0 = 0, nT1 = 8000, floorTone = 0, floorSilence = 4000\<rparr>"
    by (simp add: floors_close_def configured_def Recalculate_def)
  from extreme_duty_cycle_slots[OF a(1,2) ca] a(3) extreme_duty_cycle_slots[OF b(1,2) cb] b(3)
  show ?thesis by blast
qed

text \<open>
  A silence segment need not be empty at a duty cycle of 100: three tones in one second at
  8000 Hz leave a remainder of 2 samples, and the second of them goes to the first silence.
\<close>

theorem extreme_duty_cycle_slots_counterexample:
  "dtmfDutyCycle (mSettings (configured ''123'' 100 1 1 0 8000)) = 100
   \<and> planned_segments (configured ''123'' 100 1 1 0 8000)
         \<lparr>nT0 = 0, nT1 = 8000, floorTone = 2666, floorSilence = 0\<rparr>
       = Some [(True, 2667), (False, 1), (True, 2666), (False, 0), (True, 2666)]"
  by (simp add: configured_fields planned_segments_def ProcessInitialize_def
      redistribute_loop_exit segments_unfold)

text \<open>
  C3. For a positive sample rate, \<open>MakeDtmfTone\<close> returns \<open>len\<close> samples, and the sample at
  index \<open>i\<close> is \<open>amplitude * 0.5 * (sin(2 pi f1 (i + last) / fs) + sin(2 pi f2 (i + last) / fs))\<close>,
  the value the generating loop writes, times the factors of the two fades. The two
  \<open>switch\<close> statements give the sixteen keys their row and column frequencies and a
  lowercase letter the frequencies of the digit that carries it on the keypad. A symbol that is
  not in \<open>kSymbols\<close> has both frequencies 0, and every sample written for it is 0.
\<close>

theorem MakeDtmfTone_samples:
  assumes fs: "0 < fs"
  shows "(\<exists>buffer. MakeDtmfTone len fs tone last_pos total_len amplitude = Inr buffer
            \<and> length buffer = len
            \<and> (\<forall>i<len. buffer ! i =
                  amplitude * 0.5 *
                    (sin (2 * pi * select_f1 tone * real_of_int (int i + last_pos) / fs)
                     + sin (2 * pi * select_f2 tone * real_of_int (int i + last_pos) / fs))
                  * fade_in_factor len fs last_pos i
                  * fade_out_factor len fs last_pos total_len i))
       \<and> map (\<lambda>c. (select_f1 c, select_f2 c)) ''123A456B789C*0#D'' =
           [(697, 1209), (697, 1336), (697, 1477), (697, 1633),
            (770, 1209), (770, 1336), (770, 1477), (770, 1633),
            (852, 1209), (852, 1336), (852, 1477), (852, 1633),
            (941, 1209), (941, 1336), (941, 1477), (941, 1633)]
       \<and> map (\<lambda>c. (select_f1 c, select_f2 c)) ''abcdefghijklmnopqrstuvwxyz'' =
           map (\<lambda>c. (select_f1 c, select_f2 c)) ''22233344455566677778889999''
       \<and> (tone \<notin> set (concat kSymbols) \<longrightarrow>
            select_f1 tone = 0 \<and> select_f2 tone = 0
            \<and> MakeDtmfTone len fs tone last_pos total_len amplitude = Inr (replicate len 0))"
proof (intro conjI impI)
  show "\<exists>buffer. MakeDtmfTone len fs tone last_pos total_len amplitude = Inr buffer
            \<and> length buffer = len
            \<and> (\<forall>i<len. buffer ! i =
                  amplitude * 0.5 *
                    (sin (2 * pi * select_f1 tone * real_of_int (int i + last_pos) / fs)
                     + sin (2 * pi * select_f2 tone * real_of_int (int i + last_pos) / fs))
                  * fade_in_factor len fs last_pos i
                  * fade_out_factor len fs last_pos total_len i)"
    unfolding MakeDtmfTone_result wave_sample_formula by simp
  show "map (\<lambda>c. (select_f1 c, select_f2 c)) ''123A456B789C*0#D'' =
           [(697, 1209), (697, 1336), (697, 1477), (697, 1633),
            (770, 1209), (770, 1336), (770, 1477), (770, 1633),
            (852, 1209), (852, 1336), (852, 1477), (852, 1633),
            (941, 1209), (941, 1336), (941, 1477), (941, 1633)]"
    by (simp add: select_f1_def select_f2_def)
  show "map (\<lambda>c. (select_f1 c, select_f2 c)) ''abcdefghijklmnopqrstuvwxyz'' =
           map (\<lambda>c. (select_f1 c, select_f2 c)) ''22233344455566677778889999''"
    by (simp add: select_f1_def select_f2_def)
next
  assume u: "tone \<notin> set (concat kSymbols)"
  show f1: "select_f1 tone = 0" and f2: "select_f2 tone = 0"
    using unmapped_symbol[OF u] by simp_all
  have "wave_sample fs tone last_pos amplitude j = 0" for j
    by (simp add: wave_sample_def f1 f2)
  then show "MakeDtmfTone len fs tone last_pos total_len amplitude = Inr (replicate len 0)"
    unfolding MakeDtmfTone_result by (simp add: map_replicate_const)
qed

theorem MakeDtmfTone_samples_witness:
  "(\<exists>buffer. MakeDtmfTone 2 8000 (CHR ''5'') 7 100 1 = Inr buffer \<and> length buffer = 2)
   \<and> MakeDtmfTone 3 8000 (CHR ''E'') 0 3 1 = Inr (replicate 3 0)"
proof -
  have fs: "(0::real) < 8000" by simp
  have u: "CHR ''E'' \<notin> set (concat kSymbols)" by (simp add: kSymbols_def)
  from MakeDtmfTone_samples[OF fs, of 2 "CHR ''5''" 7 100 1]
    MakeDtmfTone_samples[OF fs, of 3 "CHR ''E''" 0 3 1] u
  show ?thesis by blast
qed

text \<open>
  C4. For \<open>k + m \<le> total\<close>, the samples of the call with \<open>last = 0, len = k\<close> followed by those
  of the call with \<open>last = k, len = m\<close> agree with the samples of the single call with
  \<open>last = 0, len = k + m\<close> at every index outside the fade-in window at the start of the
  symbol (indices below \<open>fs / 250\<close>) and the fade-out window at its end (indices from
  \<open>total - fs / 250\<close> on).
\<close>

theorem MakeDtmfTone_phase_continuous:
  assumes km: "int k + int m \<le> total_len"
  shows "\<exists>first second whole.
      MakeDtmfTone k fs tone 0 total_len amplitude = Inr first
      \<and> MakeDtmfTone m fs tone (int k) total_len amplitude = Inr second
      \<and> MakeDtmfTone (k + m) fs tone 0 total_len amplitude = Inr whole
      \<and> length (first @ second) = k + m \<and> length whole = k + m
      \<and> (\<forall>j < k + m. fs / kFadeInOut \<le> real j
            \<and> real j < real_of_int total_len - fs / kFadeInOut \<longrightarrow>
            (first @ second) ! j = whole ! j)"
proof -
  define w where "w = wave_sample fs tone 0 amplitude"
  define first where "first = map (\<lambda>j. wave_sample fs tone 0 amplitude j
      * fade_in_factor k fs 0 j * fade_out_factor k fs 0 total_len j) [0..<k]"
  define second where "second = map (\<lambda>j. wave_sample fs tone (int k) amplitude j
      * fade_in_factor m fs (int k) j * fade_out_factor m fs (int k) total_len j) [0..<m]"
  define whole where "whole = map (\<lambda>j. wave_sample fs tone 0 amplitude j
      * fade_in_factor (k + m) fs 0 j * fade_out_factor (k + m) fs 0 total_len j) [0..<k + m]"
  have r: "MakeDtmfTone k fs tone 0 total_len amplitude = Inr first"
    "MakeDtmfTone m fs tone (int k) total_len amplitude = Inr second"
    "MakeDtmfTone (k + m) fs tone 0 total_len amplitude = Inr whole"
    unfolding first_def second_def whole_def by (rule MakeDtmfTone_result)+
  have l: "length first = k" "length second = m" "length whole = k + m"
    by (simp_all add: first_def second_def whole_def)
  have eq: "(first @ second) ! j = whole ! j"
    if j: "j < k + m" and fin: "fs / kFadeInOut \<le> real j"
      and fout: "real j < real_of_int total_len - fs / kFadeInOut" for j
  proof -
    have wh: "whole ! j = w j"
    proof -
      have "fade_in_factor (k + m) fs 0 j = 1" using fin by (intro fade_in_factor_outside) simp
      moreover have "fade_out_factor (k + m) fs 0 total_len j = 1"
        using km fout by (intro fade_out_factor_outside) simp_all
      ultimately show ?thesis using j by (simp add: whole_def w_def)
    qed
    show ?thesis
    proof (cases "j < k")
      case True
      have "fade_in_factor k fs 0 j = 1" using fin by (intro fade_in_factor_outside) simp
      moreover have "fade_out_factor k fs 0 total_len j = 1"
        using km fout by (intro fade_out_factor_outside) simp_all
      ultimately have "first ! j = w j" using True by (simp add: first_def w_def)
      then show ?thesis using True wh l by (simp add: nth_append)
    next
      case False
      define i where "i = j - k"
      have ji: "j = k + i" and im: "i < m" using False j by (simp_all add: i_def)
      have "fade_in_factor m fs (int k) i = 1"
        using fin ji by (intro fade_in_factor_outside) simp
      moreover have "fade_out_factor m fs (int k) total_len i = 1"
        using km fout ji by (intro fade_out_factor_outside) simp_all
      ultimately have "second ! i = wave_sample fs tone (int k) amplitude i"
        using im by (simp add: second_def)
      also have "\<dots> = w j" by (simp add: wave_sample_shift w_def ji)
      finally show ?thesis using False wh l by (simp add: nth_append i_def)
    qed
  qed
  show ?thesis
    using r l eq by (intro exI[of _ first] exI[of _ second] exI[of _ whole]) simp
qed

theorem MakeDtmfTone_phase_continuous_witness:
  "\<exists>first second whole.
      MakeDtmfTone 6 500 (CHR ''5'') 0 10 1 = Inr first
      \<and> MakeDtmfTone 4 500 (CHR ''5'') 6 10 1 = Inr second
      \<and> MakeDtmfTone 10 500 (CHR ''5'') 0 10 1 = Inr whole
      \<and> (first @ second) ! 2 = whole ! 2 \<and> (first @ second) ! 7 = whole ! 7"
proof -
  have h: "int 6 + int 4 \<le> 10" by simp
  from MakeDtmfTone_phase_continuous[OF h, of 500 "CHR ''5''" 1]
  show ?thesis by (auto simp: kFadeInOut_def)
qed

text \<open>
  C8. Every call of \<open>MakeDtmfTone\<close> returns its \<open>len\<close> samples without writing outside
  them. Each sample is the generated value times a fade-in and a fade-out multiplier, both in
  \<open>[0, 1]\<close>; the fade-in multiplier differs from 1 only when \<open>last = 0\<close> and only at indices below
  \<open>min(len, fs / 250)\<close>, the fade-out multiplier only in the last call of a tone and only at
  indices above \<open>len - min(len, fs / 250)\<close>. With \<open>last = 0\<close> the first sample is exactly 0.
  The window \<open>min(len, fs / 250)\<close> never exceeds \<open>len\<close>, so the offset \<open>len - min(len, fs / 250)\<close>
  of the fade-out is never negative.
\<close>

theorem fade_windows_bounded:
  "\<exists>buffer. MakeDtmfTone len fs tone last_pos total_len amplitude = Inr buffer
      \<and> length buffer = len
      \<and> (\<forall>j<len.
            buffer ! j = wave_sample fs tone last_pos amplitude j
                           * fade_in_factor len fs last_pos j
                           * fade_out_factor len fs last_pos total_len j
            \<and> 0 \<le> fade_in_factor len fs last_pos j \<and> fade_in_factor len fs last_pos j \<le> 1
            \<and> 0 \<le> fade_out_factor len fs last_pos total_len j
            \<and> fade_out_factor len fs last_pos total_len j \<le> 1
            \<and> (fade_in_factor len fs last_pos j \<noteq> 1 \<longrightarrow>
                  last_pos = 0 \<and> real j < min (real len) (fs / kFadeInOut))
            \<and> (fade_out_factor len fs last_pos total_len j \<noteq> 1 \<longrightarrow>
                  last_pos \<ge> total_len - int len
                  \<and> real len - min (real len) (fs / kFadeInOut) < real j))
      \<and> (last_pos = 0 \<and> 0 < len \<longrightarrow> buffer ! 0 = 0)
      \<and> min (real len) (fs / kFadeInOut) \<le> real len
      \<and> 0 \<le> real len - min (real len) (fs / kFadeInOut)"
proof -
  define buffer where "buffer = map (\<lambda>j. wave_sample fs tone last_pos amplitude j
                    * fade_in_factor len fs last_pos j
                    * fade_out_factor len fs last_pos total_len j) [0..<len]"
  have r: "MakeDtmfTone len fs tone last_pos total_len amplitude = Inr buffer"
    unfolding buffer_def by (rule MakeDtmfTone_result)
  have l: "length buffer = len" by (simp add: buffer_def)
  have n: "buffer ! j = wave_sample fs tone last_pos amplitude j
                           * fade_in_factor len fs last_pos j
                           * fade_out_factor len fs last_pos total_len j" if "j < len" for j
    using that by (simp add: buffer_def)
  have z: "buffer ! 0 = 0" if "last_pos = 0 \<and> 0 < len"
    using that n[of 0] by (simp add: wave_sample_origin)
  show ?thesis
    using r l n z fade_in_factor_range fade_out_factor_range fade_in_factor_window
      fade_out_factor_window
    by (intro exI[of _ buffer]) (simp del: of_nat_diff)
qed

theorem fade_windows_bounded_witness:
  "\<exists>buffer. MakeDtmfTone 4 500 (CHR ''5'') 0 4 1 = Inr buffer \<and> length buffer = 4
      \<and> buffer ! 0 = 0"
  using fade_windows_bounded[of 4 500 "CHR ''5''" 0 4 1] by auto

text \<open>
  C10, as amended. A call of \<open>ProcessBlock\<close> that returns has processed exactly the requested
  size and written that many samples. After a successful \<open>ProcessInitialize\<close> on settings whose
  \<open>dtmfNTones\<close> is the length of the sequence and whose slot lengths are not negative, and
  provided the sizes requested add up to no more than \<open>numSamplesSequence\<close>, every call does
  return, without a fault, and afterwards \<open>curSeqPos\<close> is at most \<open>dtmfNTones - 1\<close> and inside
  the sequence string.
\<close>

theorem ProcessBlock_within_sequence:
  assumes init: "ProcessInitialize e fl = Some (Inr (True, e0))"
    and len: "dtmfNTones (mSettings e) = int (length (dtmfSequence (mSettings e)))"
    and tone: "0 \<le> floorTone fl"
    and silence: "0 \<le> floorSilence fl"
    and total: "int (sum_list sizes) \<le> numSamplesSequence e0"
  shows "(\<forall>e1 sz p out e2. ProcessBlock e1 sz = Some (Inr (p, out, e2)) \<longrightarrow>
            p = sz \<and> length out = sz)
     \<and> (\<exists>out e'. ProcessBlocks e0 sizes = Some (Inr (sizes, out, e'))
           \<and> length out = sum_list sizes
           \<and> - 1 \<le> curSeqPos e' \<and> curSeqPos e' \<le> dtmfNTones (mSettings e) - 1
           \<and> curSeqPos e' < int (length (dtmfSequence (mSettings e'))))"
  using ProcessBlock_returns_size ProcessBlocks_stay_within_sequence[OF assms] by blast

theorem ProcessBlock_within_sequence_witness:
  "\<exists>e0 out e'. ProcessInitialize (configured ''12'' 50 1 1 0 8)
         \<lparr>nT0 = 0, nT1 = 8, floorTone = 2, floorSilence = 2\<rparr> = Some (Inr (True, e0))
     \<and> ProcessBlocks e0 [3, 5] = Some (Inr ([3, 5], out, e'))
     \<and> length out = 8 \<and> curSeqPos e' \<le> 1"
proof -
  define X where "X = configured ''12'' 50 1 1 0 8"
  define FL where "FL = \<lparr>nT0 = 0, nT1 = 8, floorTone = 2, floorSilence = 2\<rparr>"
  have N: "1 \<le> dtmfNTones (mSettings X)" by (simp add: X_def configured_fields)
  have r: "initial_remainder X FL \<le> 2 * dtmfNTones (mSettings X) - 1"
    by (simp add: initial_remainder_def X_def FL_def configured_fields)
  note init = ProcessInitialize_no_loop[OF N r]
  have len: "dtmfNTones (mSettings X) = int (length (dtmfSequence (mSettings X)))"
    by (simp add: X_def configured_fields)
  have tone: "0 \<le> floorTone FL" and silence: "0 \<le> floorSilence FL"
    by (simp_all add: FL_def)
  have total: "int (sum_list [3, 5]) \<le> numSamplesSequence
     (X\<lparr>numSamplesSequence := nT1 FL - nT0 FL,
       numSamplesTone := floorTone FL,
       numSamplesSilence := floorSilence FL,
       diff := initial_remainder X FL, curSeqPos := - 1, isTone := False, numRemaining := 0\<rparr>)"
    by (simp add: FL_def)
  from ProcessBlock_within_sequence[OF init len tone silence total] init
  show ?thesis unfolding X_def[symmetric] FL_def[symmetric] by (auto simp: X_def configured_fields)
qed

text \<open>
  Without the bound on what is requested a call need not return: a single tone of duration 0
  is initialised with every length 0, and the first block of one sample then starts empty
  segments until it reads the sequence at index 1, past its end.
\<close>

theorem ProcessBlock_within_sequence_counterexample:
  "map_option (map_sum id fst)
       (ProcessInitialize (configured ''1'' 50 1 0 0 8000)
          \<lparr>nT0 = 0, nT1 = 0, floorTone = 0, floorSilence = 0\<rparr>)
     = Some (Inr True)
   \<and> generate (configured ''1'' 50 1 0 0 8000)
         \<lparr>nT0 = 0, nT1 = 0, floorTone = 0, floorSilence = 0\<rparr> [1]
       = Some (Inl SequenceIndexOutOfRange)"
  apply (simp add: generate_def configured_def Recalculate_def ProcessInitialize_def
      redistribute_loop_exit ProcessBlock_def)
  apply (subst ProcessBlock_loop.simps)
  apply (simp add: start_segment_def limitSampleBufferSize_def sequence_at_def
      MakeDtmfTone_result Let_def)
  apply (subst ProcessBlock_loop.simps)
  apply (simp add: start_segment_def limitSampleBufferSize_def sequence_at_def
      MakeDtmfTone_result Let_def)
  apply (subst ProcessBlock_loop.simps)
  apply (simp add: start_segment_def limitSampleBufferSize_def sequence_at_def
      MakeDtmfTone_result Let_def)
  done



end
